theory Spec2Isabelle
  imports Main "HOL-Library.Sublist" "HOL-Library.Word"
begin

section \<open>Data model\<close>

text \<open>
  A file of the pull request, as the file-listing capability returns it
  (\<^verbatim>\<open>PullRequestFile\<close>): \<open>patch\<close> is \<open>None\<close> where the TypeScript value is
  \<^verbatim>\<open>undefined\<close>.
\<close>

record PullRequestFile =
  filename :: string
  patch :: "string option"

text \<open>The value a chain call resolves to; \<^verbatim>\<open>main.ts\<close> reads its field \<^verbatim>\<open>text\<close>.\<close>

record ChainValues =
  res_text :: string

text \<open>
  A parsed diff as the \<^verbatim>\<open>parse-diff\<close> package returns it, reduced to the chunks of each
  file entry. A chunk holds its header line in \<open>content\<close> and its lines in \<open>changes\<close>, each
  change with the text of its line; \<^verbatim>\<open>codeReviewForChunks\<close> reads \<open>content\<close> only.
\<close>

datatype Change = AddChange string | DeleteChange string | NormalChange string

record Chunk =
  content :: string
  changes :: "Change list"

record FileDiff =
  chunks :: "Chunk list"

text \<open>
  The failure channel of an effect: a typed failure (\<open>Fail\<close>) or a defect (\<open>Die\<close>), which
  is what an exception thrown inside a callback becomes.
\<close>

datatype error = NoSuchElementException | UnknownException string

datatype cause = Fail error | Die string

datatype BaseMessage = SystemMessage string | HumanMessage string

text \<open>
  A JavaScript string as its UTF-16 code units, for the one input that the code splits
  and trims. The other texts are only copied and concatenated and stay \<open>string\<close>.
\<close>

type_synonym js_string = "16 word list"

record CreateReviewCommentRequest =
  repo :: string
  owner :: string
  pull_number :: nat
  commit_id :: string
  path :: string
  body :: string
  subject_type :: string

text \<open>
  Everything the run does to the outside, in the order it happens: the prompts submitted
  to the model, the exclude-pattern lists handed to the file listing, the review comments
  created, and the messages given to \<^verbatim>\<open>core.setFailed\<close>.
\<close>

record World =
  model_requests :: "BaseMessage list list"
  listing_requests :: "js_string list list"
  review_comments :: "CreateReviewCommentRequest list"
  setFailed_messages :: "string list"

text \<open>
  The capabilities the code consumes and does not implement. Each answer may depend on
  everything that happened before (the \<open>World\<close>), so a model that fails twice and then
  answers is an \<open>llm\<close> that looks at the number of earlier requests.
  \<open>parseDiff\<close> is the \<^verbatim>\<open>parse-diff\<close> package, \<open>cause_toString\<close> is \<^verbatim>\<open>Cause.toString\<close>.
  \<open>new_ChatOpenAI\<close> (given the temperature input, the API key and the model name) and
  \<open>getOctokit\<close> (given the token) are the two client constructors that \<^verbatim>\<open>run\<close> calls
  before anything else: \<open>Some e\<close> when the constructor throws \<open>e\<close>, \<open>None\<close> when it returns.
\<close>

record Env =
  detectLanguage :: "string \<Rightarrow> string option"
  llm :: "World \<Rightarrow> BaseMessage list \<Rightarrow> string + ChainValues"
  parseDiff :: "string option \<Rightarrow> FileDiff list"
  getFilesForReview :: "World \<Rightarrow> string \<Rightarrow> string \<Rightarrow> nat \<Rightarrow> js_string list \<Rightarrow> cause + PullRequestFile list"
  createReviewComment :: "World \<Rightarrow> CreateReviewCommentRequest \<Rightarrow> cause + unit"
  cause_toString :: "cause \<Rightarrow> string"
  new_ChatOpenAI :: "string \<Rightarrow> string \<Rightarrow> string \<Rightarrow> string option"
  getOctokit :: "string \<Rightarrow> string option"

section \<open>Effects\<close>

type_synonym 'a Effect = "World \<Rightarrow> (cause + 'a) \<times> World"

definition Effect_succeed :: "'a \<Rightarrow> 'a Effect" where
  "Effect_succeed a = (\<lambda>w. (Inr a, w))"

definition Effect_fail :: "error \<Rightarrow> 'a Effect" where
  "Effect_fail e = (\<lambda>w. (Inl (Fail e), w))"

definition Effect_die :: "string \<Rightarrow> 'a Effect" where
  "Effect_die d = (\<lambda>w. (Inl (Die d), w))"

definition Effect_flatMap :: "'a Effect \<Rightarrow> ('a \<Rightarrow> 'b Effect) \<Rightarrow> 'b Effect" where
  "Effect_flatMap self f =
     (\<lambda>w. case self w of
            (Inl c, w') \<Rightarrow> (Inl c, w')
          | (Inr a, w') \<Rightarrow> f a w')"

text \<open>
  \<^verbatim>\<open>Effect.forEach\<close> with its default options: one element after the other, stopping at
  the first failure.
\<close>

fun Effect_forEach :: "'a list \<Rightarrow> ('a \<Rightarrow> 'b Effect) \<Rightarrow> 'b list Effect" where
  "Effect_forEach [] f w = (Inr [], w)"
| "Effect_forEach (x # xs) f w =
     (case f x w of
        (Inl c, w') \<Rightarrow> (Inl c, w')
      | (Inr b, w') \<Rightarrow>
          (case Effect_forEach xs f w' of
             (Inl c, w'') \<Rightarrow> (Inl c, w'')
           | (Inr bs, w'') \<Rightarrow> (Inr (b # bs), w'')))"

text \<open>\<^verbatim>\<open>Effect.all\<close> on an array of effects, default options: \<^verbatim>\<open>forEach\<close> with the identity.\<close>

definition Effect_all :: "'a Effect list \<Rightarrow> 'a list Effect" where
  "Effect_all effects = Effect_forEach effects (\<lambda>eff. eff)"

text \<open>\<^verbatim>\<open>Effect.all\<close> on a pair of effects: the first, then the second.\<close>

definition Effect_all2 :: "'a Effect \<Rightarrow> 'b Effect \<Rightarrow> ('a \<times> 'b) Effect" where
  "Effect_all2 e1 e2 =
     Effect_flatMap e1 (\<lambda>a. Effect_flatMap e2 (\<lambda>b. Effect_succeed (a, b)))"

text \<open>
  \<^verbatim>\<open>Effect.tryPromise\<close>: a rejected promise becomes the typed failure
  \<^verbatim>\<open>UnknownException\<close> holding the rejection.
\<close>

definition Effect_tryPromise :: "(World \<Rightarrow> (string + 'a) \<times> World) \<Rightarrow> 'a Effect" where
  "Effect_tryPromise promise =
     (\<lambda>w. case promise w of
            (Inl rejection, w') \<Rightarrow> (Inl (Fail (UnknownException rejection)), w')
          | (Inr a, w') \<Rightarrow> (Inr a, w'))"

section \<open>Retry Policy\<close>

text \<open>
  Modelled from the spec: \<^verbatim>\<open>exponentialBackoffWithJitter\<close> of \<^verbatim>\<open>src/httpUtils.ts\<close> is
  missing from the sources, so the retry that \<^verbatim>\<open>codeReviewFor\<close> wraps around the model
  call follows the spec's Retry Policy, \<^verbatim>\<open>withRetry(operation, maxAttempts)\<close>: attempt 1
  runs at once; on failure, if \<^verbatim>\<open>attempt < maxAttempts\<close>, sleep, increment the attempt and
  retry; on failure at the final attempt, propagate the failure unchanged; success at
  any attempt returns that attempt's result. The sleep (exponential delay with jitter)
  changes nothing in the \<open>World\<close> and is left out.
\<close>

function withRetry_attempt :: "nat \<Rightarrow> 'a Effect \<Rightarrow> nat \<Rightarrow> 'a Effect" where
  "withRetry_attempt attempt operation maxAttempts w =
     (case operation w of
        (Inr a, w') \<Rightarrow> (Inr a, w')
      | (Inl c, w') \<Rightarrow>
          (if attempt < maxAttempts
           then withRetry_attempt (attempt + 1) operation maxAttempts w'
           else (Inl c, w')))"
  by pat_completeness auto
termination
  by (relation "measure (\<lambda>(attempt, operation, maxAttempts, w). maxAttempts - attempt)") auto

text \<open>
  Modelled from the spec: \<^verbatim>\<open>withRetry(operation, maxAttempts)\<close>, the first attempt being
  attempt 1. It stands for \<^verbatim>\<open>Effect.retry(operation, exponentialBackoffWithJitter(maxAttempts))\<close>.
\<close>

definition withRetry :: "'a Effect \<Rightarrow> nat \<Rightarrow> 'a Effect" where
  "withRetry operation maxAttempts = withRetry_attempt 1 operation maxAttempts"

section \<open>The prompt\<close>

text \<open>
  The two templates of \<^verbatim>\<open>chatPrompt\<close>, line by line as the source has them (a template
  literal keeps its line breaks and indentation).
\<close>

definition system_template_lines :: "string list" where
  "system_template_lines = [
    ''Act as an empathetic software engineer that's an expert in designing and developing web application softwares using Java, Springboot framwork and AppDynamics Integration (.yml), and adhering to best practices of software design and architecture.'',
    ''      You are also an expert in sumarizing the review comments in the form of a predefined report for each and every coding guideline.'']"

text \<open>The human template, lines 30 to 108 of the source: the task and the rubric.\<close>

definition rubric_lines :: "string list" where
  "rubric_lines = [
    ''Your task is to review a Pull Request. You will receive a git diff.'',
    ''    Review it and suggest any improvements in code quality, maintainability, readability, performance, security, etc.'',
    ''    Identify any potential bugs or security vulnerabilities. After reviewing the code, provide a summary report for each coding guideline if it was followed in the code or not.'',
    ''    You can refer the following example for a summary report having columns - Code Review checklist, Implemented and Summarization.'',
    ''    For the Summarization column, add a note on the overall coverage of the respective guideline in the given file.'',
    ''    Also, provide the report in a tabular format against coding guidelines, at the end of each file in the git diff:'',
    ''    Example:  Code review checklist'' @ [CHR 0x09] @ ''Implemented Summarization'',
    ''SOLID principles'' @ [CHR 0x09] @ ''No'',
    ''Java Coding Guidelines:'',
    ''Naming Conventions'' @ [CHR 0x09] @ ''No'',
    ''Indentation and Formatting'' @ [CHR 0x09] @ ''No'',
    ''Comments and Documentation'' @ [CHR 0x09] @ ''Yes'',
    ''Include remaining points here from Java coding guidelines'',
    ''Springboot Coding Guidelines:'',
    ''Project Structure:'' @ [CHR 0x09] @ ''Yes'',
    ''Dependency Injection'' @ [CHR 0x09] @ ''Yes'',
    ''RESTful APIs'' @ [CHR 0x09] @ ''No'',
    ''Exception Handling'' @ [CHR 0x09] @ ''No'',
    ''Include remaining points here from Spring boot coding guidelines'',
    '''',
    ''Verify that the code adheres to the following design patterns and coding guidelines for Java, Springboot and AppDynamics Integration (.yml), and suggest code improvements accordingly.'',
    ''-Design Patterns:'',
    ''1. You have to check if the code follows SOLID principles (Single Responsibility, Open/Closed, Liskov Substitution, Interface Segregation, Dependency Inversion). If not used, suggest how to refactor the code to follow these principles.'',
    ''-Java Coding Guidelines:'',
    ''1.Naming Conventions:'',
    ''a.Class names should be nouns and start with an uppercase letter (e.g., Car, UserService).'',
    ''b.Method and variable names should be verbs or nouns and start with a lowercase letter (e.g., getUser(), firstName).'',
    ''c.Constants should be all uppercase with underscores separating words (e.g., MAX_SIZE).'',
    ''2.Indentation and Formatting:'',
    ''a.Use 4 spaces for indentation.'',
    ''b.Use braces even for single-line statements in control structures.'',
    ''c.Limit lines to 80-120 characters to improve readability.'',
    ''3.Comments and Documentation:'',
    ''a.Verify that the Javadoc style comments are used for documenting classes, methods, and fields.'',
    ''b.Write clear and concise comments to explain complex algorithms or business logic.'',
    ''4.Exception Handling:'',
    ''a.Use specific exception types rather than catching Exception.'',
    ''b.Handle exceptions appropriately, either by logging or throwing further up the call stack.'',
    ''5.Avoid Magic Numbers and Strings:'',
    ''a.Verify constants are used instead of hardcoding values.'',
    ''b.Verify that strings and numbers are defined as constants at the beginning of the class.'',
    ''6.Immutable Objects:'',
    ''a.Prefer immutability whenever possible.'',
    ''b. Verify to make fields final if they should not change after object creation.'',
    ''7.Use Interfaces and Abstract Classes:'',
    ''a.Verify the use of interfaces for defining contracts and abstract classes for code reuse.'',
    ''b.Prefer composition over inheritance.'',
    ''8.Concurrency:'',
    ''a.Use thread-safe classes and synchronization mechanisms when dealing with concurrent operations.'',
    ''b.Utilize Java's concurrent utilities like ExecutorService and ConcurrentHashMap.'',
    ''-Spring Boot Coding Guidelines:'',
    ''1.Dependency Injection:'',
    ''a.Verify the use of constructor injection wherever possible for better testability and immutability.'',
    ''b.Avoid field injection, prefer setter injection only when required.'',
    ''2.RESTful APIs:'',
    ''a. Verify the RESTful principles are followed for designing APIs.'',
    ''b. Validate the use of appropriate HTTP methods (GET, POST, PUT, DELETE) for CRUD operations.'',
    ''3.Exception Handling:'',
    ''a.Verify that @ControllerAdvice is used for global exception handling.'',
    ''b.Customize error responses using @ExceptionHandler.'',
    ''4.Security:'',
    ''a. Verify that the best practices for password hashing and session management are used.'',
    ''5.Testing:'',
    ''a.Write unit tests for business logic using frameworks like JUnit and Mockito.'',
    ''b.Use Spring Boot's testing annotations (@SpringBootTest, @WebMvcTest, etc.) for integration testing.'',
    ''6.Logging:'',
    ''a.Use a logging framework like Log4j or Logback.'',
    ''b.Log meaningful messages with appropriate log levels.'',
    ''7.Performance:'',
    ''a.Verify that the database queries are optimized using Spring Data JPA's query methods or custom queries.'',
    ''b.Cache data using Spring's caching abstraction (@Cacheable, @CacheEvict).'',
    ''8.Documentation:'',
    ''a.Document API endpoints using Swagger or Spring REST Docs.'',
    ''b.Include clear descriptions, request/response examples, and error handling details.'',
    ''- AppDynamics Integration (.yml) Coding Guidelines:'',
    ''a.Verify the parameters - appdAgentAppName , appdAgentTierName, appdPlan are defined.'',
    ''b.Verify that the name for appdAgentTierName follows the naming convention as:  Application name-Application EAI number (for example: FXO-Document-Metadata-Service-3538226 where FXO-Document-Metadata-Service is the application name and 3538226 is the EAI number)'',
    '''',
    ''Write your reply and examples in GitHub Markdown format.'']"

text \<open>Its last five lines, 109 to 113, with the two placeholders.\<close>

definition request_lines :: "string list" where
  "request_lines = [
    ''The programming language in the git diff is {lang}.'',
    '''',
    ''    git diff to review'',
    '''',
    ''    {diff}'']"

definition human_template_lines :: "string list" where
  "human_template_lines = rubric_lines @ request_lines"

definition join_lines :: "string list \<Rightarrow> string" where
  "join_lines ls = concat (case ls of [] \<Rightarrow> [] | l # rest \<Rightarrow> l # map (\<lambda>x. CHR 0x0A # x) rest)"

definition system_template :: string where
  "system_template = join_lines system_template_lines"

definition human_template :: string where
  "human_template = join_lines human_template_lines"

datatype MessagePromptTemplate =
  SystemMessagePromptTemplate string | HumanMessagePromptTemplate string

definition chatPrompt :: "MessagePromptTemplate list" where
  "chatPrompt =
     [SystemMessagePromptTemplate system_template, HumanMessagePromptTemplate human_template]"

text \<open>
  The template format is LangChain's f-string format: \<^verbatim>\<open>{name}\<close> is a placeholder,
  \<^verbatim>\<open>{{\<close> and \<^verbatim>\<open>}}\<close> stand for one brace, any other text is literal. A template is first
  split into nodes, then the nodes are interpolated with the values of the call.
\<close>

datatype ParsedFStringNode = Literal string | Variable string

definition is_bracket :: "char \<Rightarrow> bool" where
  "is_bracket c \<longleftrightarrow> c = CHR ''{'' \<or> c = CHR ''}''"

definition add_node :: "ParsedFStringNode \<Rightarrow> string + ParsedFStringNode list \<Rightarrow> string + ParsedFStringNode list" where
  "add_node n r = (case r of Inl e \<Rightarrow> Inl e | Inr ns \<Rightarrow> Inr (n # ns))"

function parseFString :: "string \<Rightarrow> string + ParsedFStringNode list" where
  "parseFString [] = Inr []"
| "parseFString (c # cs) =
     (if c = CHR ''{'' \<and> cs \<noteq> [] \<and> hd cs = CHR ''{'' then
        add_node (Literal ''{'') (parseFString (tl cs))
      else if c = CHR ''}'' \<and> cs \<noteq> [] \<and> hd cs = CHR ''}'' then
        add_node (Literal ''}'') (parseFString (tl cs))
      else if c = CHR ''{'' then
        (if CHR ''}'' \<notin> set cs then Inl ''Unclosed { in template.''
         else add_node (Variable (takeWhile (\<lambda>x. x \<noteq> CHR ''}'') cs))
                (parseFString (tl (dropWhile (\<lambda>x. x \<noteq> CHR ''}'') cs))))
      else if c = CHR ''}'' then Inl ''Single } in template.''
      else add_node (Literal (c # takeWhile (\<lambda>x. \<not> is_bracket x) cs))
             (parseFString (dropWhile (\<lambda>x. \<not> is_bracket x) cs)))"
  by pat_completeness auto
termination
proof (relation "measure length", goal_cases)
  case 1
  show ?case by simp
next
  case (2 c cs)
  then show ?case by (cases cs) auto
next
  case (3 c cs)
  then show ?case by (cases cs) auto
next
  case (4 c cs)
  have "length (tl (dropWhile (\<lambda>x. x \<noteq> CHR ''}'') cs)) \<le> length cs"
    using length_dropWhile_le [of "\<lambda>x. x \<noteq> CHR ''}''" cs] by simp
  then show ?case by simp
next
  case (5 c cs)
  have "length (dropWhile (\<lambda>x. \<not> is_bracket x) cs) \<le> length cs"
    by (rule length_dropWhile_le)
  then show ?case by simp
qed

text \<open>
  A JavaScript value that is a string or \<^verbatim>\<open>undefined\<close>, appended to a string.
\<close>

definition js_to_string :: "string option \<Rightarrow> string" where
  "js_to_string v = (case v of None \<Rightarrow> ''undefined'' | Some s \<Rightarrow> s)"

fun interpolateFString :: "ParsedFStringNode list \<Rightarrow> (string \<times> string option) list \<Rightarrow> string + string" where
  "interpolateFString [] values = Inr []"
| "interpolateFString (Literal t # nodes) values =
     (case interpolateFString nodes values of
        Inl e \<Rightarrow> Inl e
      | Inr res \<Rightarrow> Inr (t @ res))"
| "interpolateFString (Variable name # nodes) values =
     (case map_of values name of
        None \<Rightarrow> Inl (''Missing value for input '' @ name)
      | Some v \<Rightarrow>
          (case interpolateFString nodes values of
             Inl e \<Rightarrow> Inl e
           | Inr res \<Rightarrow> Inr (js_to_string v @ res)))"

definition renderTemplate :: "string \<Rightarrow> (string \<times> string option) list \<Rightarrow> string + string" where
  "renderTemplate template values =
     (case parseFString template of
        Inl e \<Rightarrow> Inl e
      | Inr nodes \<Rightarrow> interpolateFString nodes values)"

fun formatMessages :: "MessagePromptTemplate list \<Rightarrow> (string \<times> string option) list \<Rightarrow> string + BaseMessage list" where
  "formatMessages [] values = Inr []"
| "formatMessages (SystemMessagePromptTemplate t # ms) values =
     (case renderTemplate t values of
        Inl e \<Rightarrow> Inl e
      | Inr s \<Rightarrow>
          (case formatMessages ms values of
             Inl e \<Rightarrow> Inl e
           | Inr rest \<Rightarrow> Inr (SystemMessage s # rest)))"
| "formatMessages (HumanMessagePromptTemplate t # ms) values =
     (case renderTemplate t values of
        Inl e \<Rightarrow> Inl e
      | Inr s \<Rightarrow>
          (case formatMessages ms values of
             Inl e \<Rightarrow> Inl e
           | Inr rest \<Rightarrow> Inr (HumanMessage s # rest)))"

section \<open>Review Generator\<close>

text \<open>
  \<^verbatim>\<open>this.chain.call(values)\<close>: the chain renders \<open>chatPrompt\<close> with the values and submits
  the messages to the model. A rendering error rejects before anything is submitted.
\<close>

definition chain_call :: "Env \<Rightarrow> (string \<times> string option) list \<Rightarrow> World \<Rightarrow> (string + ChainValues) \<times> World" where
  "chain_call env values w =
     (case formatMessages chatPrompt values of
        Inl e \<Rightarrow> (Inl e, w)
      | Inr messages \<Rightarrow>
          (llm env w messages, w\<lparr>model_requests := model_requests w @ [messages]\<rparr>))"

text \<open>\<^verbatim>\<open>languageDetectionService.detectLanguage\<close>, failing with \<^verbatim>\<open>NoSuchElementException\<close>.\<close>

definition detectLanguage_effect :: "Env \<Rightarrow> string \<Rightarrow> string Effect" where
  "detectLanguage_effect env name =
     (case detectLanguage env name of
        None \<Rightarrow> Effect_fail NoSuchElementException
      | Some lang \<Rightarrow> Effect_succeed lang)"

definition codeReviewFor :: "Env \<Rightarrow> PullRequestFile \<Rightarrow> ChainValues Effect" where
  "codeReviewFor env file =
     Effect_flatMap (detectLanguage_effect env (filename file))
       (\<lambda>lang.
          withRetry
            (Effect_tryPromise (chain_call env [(''lang'', Some lang), (''diff'', patch file)]))
            3)"

text \<open>
  \<^verbatim>\<open>parseDiff(file.patch)[0]\<close> is \<^verbatim>\<open>undefined\<close> when the parser returns no entry; reading
  \<^verbatim>\<open>fd.chunks\<close> then throws a TypeError inside the \<^verbatim>\<open>flatMap\<close> callback, which the
  effect runtime turns into a defect.
\<close>

definition codeReviewForChunks :: "Env \<Rightarrow> PullRequestFile \<Rightarrow> ChainValues list Effect" where
  "codeReviewForChunks env file =
     (let programmingLanguage = detectLanguage_effect env (filename file);
          fileDiff = (\<lambda>w. (Inr (case parseDiff env (patch file) of [] \<Rightarrow> None | fd # _ \<Rightarrow> Some fd), w))
      in Effect_flatMap (Effect_all2 programmingLanguage fileDiff)
           (\<lambda>(lang, fd).
              case fd of
                None \<Rightarrow> Effect_die ''TypeError: Cannot read properties of undefined (reading chunks)''
              | Some fd \<Rightarrow>
                  Effect_all
                    (map (\<lambda>chunk. Effect_tryPromise
                            (chain_call env [(''lang'', Some lang), (''diff'', Some (content chunk))]))
                       (chunks fd))))"

section \<open>Review Orchestrator\<close>

text \<open>
  What \<^verbatim>\<open>run\<close> reads from \<^verbatim>\<open>github.context\<close> and from the action's inputs.
\<close>

record Context =
  eventName :: string
  context_owner :: string
  context_repo :: string
  payload_number :: nat
  pull_request_head_sha :: string
  input_openai_api_key :: string
  input_github_token :: string
  input_model_name :: string
  input_model_temperature :: string
  input_exclude_files :: js_string

text \<open>\<^verbatim>\<open>String.prototype.split\<close> with a separator of one code unit.\<close>

fun js_split :: "'a \<Rightarrow> 'a list \<Rightarrow> 'a list list" where
  "js_split sep [] = [[]]"
| "js_split sep (c # cs) =
     (if c = sep then [] # js_split sep cs
      else (case js_split sep cs of
              [] \<Rightarrow> [[c]]
            | piece # pieces \<Rightarrow> (c # piece) # pieces))"

text \<open>
  \<^verbatim>\<open>String.prototype.trim\<close> removes white space and line terminators from both ends.
  White space is U+0009, U+000B, U+000C, U+FEFF and the space separators U+0020, U+00A0,
  U+1680, U+2000 to U+200A, U+202F, U+205F, U+3000; the line terminators are U+000A,
  U+000D, U+2028, U+2029. All of them are single code units.
\<close>

definition is_whitespace :: "16 word \<Rightarrow> bool" where
  "is_whitespace c \<longleftrightarrow>
     c \<in> {0x0009, 0x000A, 0x000B, 0x000C, 0x000D, 0x0020, 0x00A0, 0x1680,
          0x2028, 0x2029, 0x202F, 0x205F, 0x3000, 0xFEFF} \<or>
     (0x2000 \<le> c \<and> c \<le> 0x200A)"

definition trim :: "js_string \<Rightarrow> js_string" where
  "trim s = rev (dropWhile is_whitespace (rev (dropWhile is_whitespace s)))"

text \<open>The comma is the code unit 0x2C.\<close>

definition excludeFilePatterns :: "Context \<Rightarrow> js_string list" where
  "excludeFilePatterns context = map trim (js_split 0x2C (input_exclude_files context))"

definition getFilesForReview_effect :: "Env \<Rightarrow> string \<Rightarrow> string \<Rightarrow> nat \<Rightarrow> js_string list \<Rightarrow> PullRequestFile list Effect" where
  "getFilesForReview_effect env ow rp n filePattens =
     (\<lambda>w. (getFilesForReview env w ow rp n filePattens,
            w\<lparr>listing_requests := listing_requests w @ [filePattens]\<rparr>))"

definition createReviewComment_effect :: "Env \<Rightarrow> CreateReviewCommentRequest \<Rightarrow> unit Effect" where
  "createReviewComment_effect env request =
     (\<lambda>w. (createReviewComment env w request,
            w\<lparr>review_comments := review_comments w @ [request]\<rparr>))"

definition setFailed :: "string \<Rightarrow> World \<Rightarrow> World" where
  "setFailed message w = w\<lparr>setFailed_messages := setFailed_messages w @ [message]\<rparr>"

text \<open>The body of the \<^verbatim>\<open>Effect.forEach\<close> of \<^verbatim>\<open>run\<close>: review one file, then post the comment.\<close>

definition review_and_comment :: "Env \<Rightarrow> Context \<Rightarrow> PullRequestFile \<Rightarrow> unit Effect" where
  "review_and_comment env context file =
     Effect_flatMap (codeReviewFor env file)
       (\<lambda>res. createReviewComment_effect env
          \<lparr>repo = context_repo context,
           owner = context_owner context,
           pull_number = payload_number context,
           commit_id = pull_request_head_sha context,
           path = filename file,
           body = res_text res,
           subject_type = ''file''\<rparr>)"

text \<open>The effect \<^verbatim>\<open>a\<close> of the \<^verbatim>\<open>pull_request\<close> branch.\<close>

definition pull_request_program :: "Env \<Rightarrow> Context \<Rightarrow> unit list Effect" where
  "pull_request_program env context =
     Effect_flatMap (Effect_succeed (excludeFilePatterns context))
       (\<lambda>filePattens.
          Effect_flatMap
            (Effect_flatMap
               (getFilesForReview_effect env (context_owner context) (context_repo context)
                  (payload_number context) filePattens)
               (\<lambda>files. Effect_succeed (filter (\<lambda>file. patch file \<noteq> None) files)))
            (\<lambda>files. Effect_forEach files (review_and_comment env context)))"

text \<open>The \<^verbatim>\<open>Match.orElse\<close> branch.\<close>

definition orElse_program :: "string \<Rightarrow> unit Effect" where
  "orElse_program name =
     (\<lambda>w. (Inr (), setFailed (''This action only works on pull_request events. Got: '' @ name) w))"

text \<open>\<^verbatim>\<open>Effect.runPromiseExit\<close>, keeping of the exit only what \<^verbatim>\<open>run\<close> looks at.\<close>

definition runPromiseExit :: "'a Effect \<Rightarrow> World \<Rightarrow> cause option \<times> World" where
  "runPromiseExit runnable w =
     (case runnable w of
        (Inl c, w') \<Rightarrow> (Some c, w')
      | (Inr a, w') \<Rightarrow> (None, w'))"

text \<open>
  Lines 48 to 115 of \<^verbatim>\<open>run\<close>: the program is chosen by the event name and run to its exit;
  a failed exit is reported with \<^verbatim>\<open>core.setFailed\<close>.
\<close>

definition run_program :: "Env \<Rightarrow> Context \<Rightarrow> World \<Rightarrow> World" where
  "run_program env context w =
     (let (result, w') =
            (if eventName context = ''pull_request''
             then runPromiseExit (pull_request_program env context) w
             else runPromiseExit (orElse_program (eventName context)) w)
      in case result of
           Some c \<Rightarrow> setFailed (cause_toString env c) w'
         | None \<Rightarrow> w')"

text \<open>
  \<^verbatim>\<open>run\<close>. Before the event is looked at, lines 20 to 46 read the inputs, construct the
  model client (\<^verbatim>\<open>new ChatOpenAI\<close>) and, in \<^verbatim>\<open>initializeServices\<close>, the repository client
  (\<^verbatim>\<open>github.getOctokit\<close>). Either constructor may throw; nothing catches it, so the promise
  of \<^verbatim>\<open>run\<close> rejects with what was thrown (\<open>Inl\<close>) and nothing else happens. Otherwise the
  run ends in the world its program leaves (\<open>Inr\<close>).
\<close>

definition run :: "Env \<Rightarrow> Context \<Rightarrow> World \<Rightarrow> string + World" where
  "run env context w =
     (case new_ChatOpenAI env (input_model_temperature context) (input_openai_api_key context)
             (input_model_name context) of
        Some thrown \<Rightarrow> Inl thrown
      | None \<Rightarrow>
          (case getOctokit env (input_github_token context) of
             Some thrown \<Rightarrow> Inl thrown
           | None \<Rightarrow> Inr (run_program env context w)))"

section \<open>Notions used to state the properties\<close>

text \<open>The literal text of the human template before and between its two placeholders.\<close>

definition human_prefix :: string where
  "human_prefix = join_lines rubric_lines @ CHR 0x0A # ''The programming language in the git diff is ''"

definition human_middle :: string where
  "human_middle = ''.'' @ [CHR 0x0A, CHR 0x0A] @ ''    git diff to review'' @ [CHR 0x0A, CHR 0x0A] @ ''    ''"

text \<open>The values of one chain call, and the messages they render to.\<close>

definition call_values :: "string \<Rightarrow> string option \<Rightarrow> (string \<times> string option) list" where
  "call_values lang diff = [(''lang'', Some lang), (''diff'', diff)]"

definition review_messages :: "string \<Rightarrow> string option \<Rightarrow> BaseMessage list" where
  "review_messages lang diff =
     [SystemMessage system_template,
      HumanMessage (human_prefix @ lang @ human_middle @ js_to_string diff)]"

text \<open>The world once \<open>requests\<close> more prompts have been submitted to the model.\<close>

definition submitted :: "BaseMessage list list \<Rightarrow> World \<Rightarrow> World" where
  "submitted requests w = w\<lparr>model_requests := model_requests w @ requests\<rparr>"

text \<open>The prompts of the chunks \<open>cs\<close>, one per chunk, in the order of the chunks.\<close>

definition chunk_requests :: "string \<Rightarrow> Chunk list \<Rightarrow> BaseMessage list list" where
  "chunk_requests lang cs = map (\<lambda>chunk. review_messages lang (Some (content chunk))) cs"

text \<open>The world once the file listing has been asked with \<open>patterns\<close>.\<close>

definition listed :: "js_string list \<Rightarrow> World \<Rightarrow> World" where
  "listed patterns w = w\<lparr>listing_requests := listing_requests w @ [patterns]\<rparr>"

text \<open>The world once the review comment \<open>request\<close> has been sent.\<close>

definition commented :: "CreateReviewCommentRequest \<Rightarrow> World \<Rightarrow> World" where
  "commented request w = w\<lparr>review_comments := review_comments w @ [request]\<rparr>"

text \<open>The review comment that \<^verbatim>\<open>run\<close> builds for a file and the review of it.\<close>

definition comment_request :: "Context \<Rightarrow> PullRequestFile \<Rightarrow> ChainValues \<Rightarrow> CreateReviewCommentRequest" where
  "comment_request context file res =
     \<lparr>repo = context_repo context,
      owner = context_owner context,
      pull_number = payload_number context,
      commit_id = pull_request_head_sha context,
      path = filename file,
      body = res_text res,
      subject_type = ''file''\<rparr>"

text \<open>
  The world \<open>w'\<close> differs from \<open>w\<close> only by prompts and review comments of the files \<open>fs\<close>:
  the prompts added render the patch of a file of \<open>fs\<close> that has one, the comments added
  are comments on such a file, and nothing else has changed.
\<close>

definition reviews_only :: "Env \<Rightarrow> Context \<Rightarrow> PullRequestFile list \<Rightarrow> World \<Rightarrow> World \<Rightarrow> bool" where
  "reviews_only env context fs w w' \<longleftrightarrow>
     listing_requests w' = listing_requests w \<and>
     setFailed_messages w' = setFailed_messages w \<and>
     (\<exists>ms. model_requests w' = model_requests w @ ms \<and>
        (\<forall>m \<in> set ms. \<exists>f \<in> set fs. \<exists>lang d. patch f = Some d \<and> m = review_messages lang (Some d))) \<and>
     (\<exists>cs. review_comments w' = review_comments w @ cs \<and>
        (\<forall>c \<in> set cs. \<exists>f \<in> set fs. \<exists>d. patch f = Some d \<and> path c = filename f))"

text \<open>\<^verbatim>\<open>Array.prototype.join\<close> with a separator of one code unit, the inverse of the split.\<close>

definition js_join :: "'a \<Rightarrow> 'a list list \<Rightarrow> 'a list" where
  "js_join sep pieces =
     concat (case pieces of [] \<Rightarrow> [] | p # rest \<Rightarrow> p # map (\<lambda>x. sep # x) rest)"

text \<open>
  The diff text of a hunk: its header line followed by its lines, as they stand in the
  patch.
\<close>

definition change_content :: "Change \<Rightarrow> string" where
  "change_content c = (case c of AddChange l \<Rightarrow> l | DeleteChange l \<Rightarrow> l | NormalChange l \<Rightarrow> l)"

definition hunk_text :: "Chunk \<Rightarrow> string" where
  "hunk_text chunk = join_lines (content chunk # map change_content (changes chunk))"

section \<open>Example inputs\<close>

text \<open>Concrete worlds, files and capabilities on which the properties are exercised.\<close>

definition empty_world :: World where
  "empty_world = \<lparr>model_requests = [], listing_requests = [], review_comments = [], setFailed_messages = []\<rparr>"

definition foo_file :: PullRequestFile where
  "foo_file = \<lparr>filename = ''Foo.java'', patch = Some ''@@ -1,2 +1,3 @@''\<rparr>"

definition logo_file :: PullRequestFile where
  "logo_file = \<lparr>filename = ''logo.png'', patch = None\<rparr>"

definition bar_file :: PullRequestFile where
  "bar_file = \<lparr>filename = ''Bar.java'', patch = Some ''@@ -4 +4 @@''\<rparr>"

definition baz_file :: PullRequestFile where
  "baz_file = \<lparr>filename = ''Baz.java'', patch = Some ''@@ -9 +9,2 @@''\<rparr>"

definition show_cause :: "cause \<Rightarrow> string" where
  "show_cause c =
     (case c of
        Fail NoSuchElementException \<Rightarrow> ''NoSuchElementException''
      | Fail (UnknownException e) \<Rightarrow> ''UnknownException: '' @ e
      | Die d \<Rightarrow> d)"

definition two_file_diff :: "FileDiff list" where
  "two_file_diff =
     [\<lparr>chunks = [\<lparr>content = ''@@ -1,2 +1,3 @@'', changes = []\<rparr>,
                 \<lparr>content = ''@@ -10,4 +11,4 @@'', changes = []\<rparr>]\<rparr>,
      \<lparr>chunks = [\<lparr>content = ''@@ -7 +7 @@'', changes = []\<rparr>]\<rparr>]"

definition example_env :: "(World \<Rightarrow> BaseMessage list \<Rightarrow> string + ChainValues) \<Rightarrow> Env" where
  "example_env model =
     \<lparr>detectLanguage = (\<lambda>name. Some ''Java''),
      llm = model,
      parseDiff = (\<lambda>p. case p of None \<Rightarrow> [] | Some s \<Rightarrow> if s = [] then [] else two_file_diff),
      getFilesForReview = (\<lambda>w ow rp n patterns. Inr [logo_file, foo_file, bar_file, baz_file]),
      createReviewComment = (\<lambda>w request. Inr ()),
      cause_toString = show_cause,
      new_ChatOpenAI =
        (\<lambda>temperature key name.
           if key = [] then Some ''OpenAI or Azure OpenAI API key not found'' else None),
      getOctokit =
        (\<lambda>token. if token = [] then Some ''Parameter token or opts.auth is required'' else None)\<rparr>"

definition flaky_model :: "World \<Rightarrow> BaseMessage list \<Rightarrow> string + ChainValues" where
  "flaky_model w messages =
     (if length (model_requests w) < 2 then Inl ''429 Too Many Requests''
      else Inr \<lparr>res_text = ''Looks good.''\<rparr>)"

definition down_model :: "World \<Rightarrow> BaseMessage list \<Rightarrow> string + ChainValues" where
  "down_model w messages = Inl ''503 Service Unavailable''"

definition numbering_model :: "World \<Rightarrow> BaseMessage list \<Rightarrow> string + ChainValues" where
  "numbering_model w messages =
     (if length (model_requests w) = 0 then Inr \<lparr>res_text = ''first review''\<rparr>
      else Inr \<lparr>res_text = ''second review''\<rparr>)"

definition second_fails_model :: "World \<Rightarrow> BaseMessage list \<Rightarrow> string + ChainValues" where
  "second_fails_model w messages =
     (if length (model_requests w) = 1 then Inl ''500 Internal Server Error''
      else Inr \<lparr>res_text = ''first review''\<rparr>)"

definition first_file_diff :: FileDiff where
  "first_file_diff =
     \<lparr>chunks = [\<lparr>content = ''@@ -1,2 +1,3 @@'', changes = []\<rparr>,
                \<lparr>content = ''@@ -10,4 +11,4 @@'', changes = []\<rparr>]\<rparr>"

definition empty_patch_file :: PullRequestFile where
  "empty_patch_file = \<lparr>filename = ''Empty.java'', patch = Some ''''\<rparr>"

definition answers_once_model :: "World \<Rightarrow> BaseMessage list \<Rightarrow> string + ChainValues" where
  "answers_once_model w messages =
     (if model_requests w = [] then Inr \<lparr>res_text = ''first review''\<rparr>
      else Inl ''503 Service Unavailable'')"

text \<open>The code units of \<^verbatim>\<open>*.md, docs/**\<close>, of \<^verbatim>\<open>*.md\<close> and of \<^verbatim>\<open>docs/**\<close>.\<close>

definition md_docs_input :: js_string where
  "md_docs_input =
     [0x2A, 0x2E, 0x6D, 0x64, 0x2C, 0x20, 0x64, 0x6F, 0x63, 0x73, 0x2F, 0x2A, 0x2A]"

definition md_pattern :: js_string where
  "md_pattern = [0x2A, 0x2E, 0x6D, 0x64]"

definition docs_pattern :: js_string where
  "docs_pattern = [0x64, 0x6F, 0x63, 0x73, 0x2F, 0x2A, 0x2A]"

text \<open>
  The code units of \<^verbatim>\<open>x\<close>, a comma, a no-break space (U+00A0) and \<^verbatim>\<open>a\<close>.
\<close>

definition nbsp_input :: js_string where
  "nbsp_input = [0x78, 0x2C, 0xA0, 0x61]"

definition pr_context :: Context where
  "pr_context =
     \<lparr>eventName = ''pull_request'', context_owner = ''octo'', context_repo = ''demo'',
      payload_number = 7, pull_request_head_sha = ''abc123'',
      input_openai_api_key = ''sk-test'', input_github_token = ''ghs_test'',
      input_model_name = ''gpt-4'', input_model_temperature = ''0'',
      input_exclude_files = md_docs_input\<rparr>"

definition push_context :: Context where
  "push_context = pr_context\<lparr>eventName := ''push''\<rparr>"

text \<open>
  A patch of one hunk whose lines all hold a brace, the chunk that \<^verbatim>\<open>parse-diff\<close> returns
  for it (the header line in \<open>content\<close>, the three lines in \<open>changes\<close>), and capabilities
  whose parser returns that chunk.
\<close>

definition greeter_patch :: string where
  "greeter_patch =
     join_lines [''@@ -1,3 +1,3 @@'', '' class Greeter {'', ''-  void hi() { }'', ''+  void hello() { }'']"

definition greeter_chunk :: Chunk where
  "greeter_chunk =
     \<lparr>content = ''@@ -1,3 +1,3 @@'',
      changes = [NormalChange '' class Greeter {'', DeleteChange ''-  void hi() { }'',
                 AddChange ''+  void hello() { }'']\<rparr>"

definition greeter_file :: PullRequestFile where
  "greeter_file = \<lparr>filename = ''Greeter.java'', patch = Some greeter_patch\<rparr>"

definition greeter_env :: Env where
  "greeter_env =
     (example_env numbering_model)
       \<lparr>parseDiff := (\<lambda>p. if p = Some greeter_patch then [\<lparr>chunks = [greeter_chunk]\<rparr>] else [])\<rparr>"

section \<open>Rendering the prompt\<close>

lemma join_lines_append:
  "A \<noteq> [] \<Longrightarrow> B \<noteq> [] \<Longrightarrow> join_lines (A @ B) = join_lines A @ CHR 0x0A # join_lines B"
  by (cases A; cases B) (simp_all add: join_lines_def)

lemma join_lines_request:
  "join_lines request_lines = ''The programming language in the git diff is '' @ ''{lang}'' @ human_middle @ ''{diff}''"
  by (simp add: join_lines_def request_lines_def human_middle_def)

lemma human_template_split:
  "human_template = human_prefix @ ''{lang}'' @ human_middle @ ''{diff}''"
proof -
  have "rubric_lines \<noteq> []" "request_lines \<noteq> []"
    by (simp_all add: rubric_lines_def request_lines_def)
  then have "human_template = join_lines rubric_lines @ CHR 0x0A # join_lines request_lines"
    unfolding human_template_def human_template_lines_def by (rule join_lines_append)
  then show ?thesis
    unfolding join_lines_request human_prefix_def by simp
qed

lemma list_all_join_lines:
  "P (CHR 0x0A) \<Longrightarrow> list_all (list_all P) ls \<Longrightarrow> list_all P (join_lines ls)"
  by (cases ls) (auto simp: join_lines_def list_all_iff)

lemma rubric_lines_no_bracket:
  "list_all (list_all (\<lambda>c. \<not> is_bracket c)) rubric_lines"
  unfolding rubric_lines_def is_bracket_def by simp

lemma system_template_lines_no_bracket:
  "list_all (list_all (\<lambda>c. \<not> is_bracket c)) system_template_lines"
  unfolding system_template_lines_def is_bracket_def by simp

lemma human_prefix_no_bracket: "list_all (\<lambda>c. \<not> is_bracket c) human_prefix"
proof -
  have "list_all (\<lambda>c. \<not> is_bracket c) (join_lines rubric_lines)"
    by (rule list_all_join_lines [OF _ rubric_lines_no_bracket]) (simp add: is_bracket_def)
  then show ?thesis
    by (simp add: human_prefix_def is_bracket_def)
qed

lemma system_template_no_bracket: "list_all (\<lambda>c. \<not> is_bracket c) system_template"
  unfolding system_template_def
  by (rule list_all_join_lines [OF _ system_template_lines_no_bracket]) (simp add: is_bracket_def)

lemma human_prefix_nonempty: "human_prefix \<noteq> []"
  by (simp add: human_prefix_def)

lemma system_template_nonempty: "system_template \<noteq> []"
  by (simp add: system_template_def system_template_lines_def join_lines_def)

lemma takeWhile_no_bracket:
  "list_all (\<lambda>c. \<not> is_bracket c) xs \<Longrightarrow> rest = [] \<or> is_bracket (hd rest) \<Longrightarrow>
   takeWhile (\<lambda>x. \<not> is_bracket x) (xs @ rest) = xs \<and>
   dropWhile (\<lambda>x. \<not> is_bracket x) (xs @ rest) = rest"
  by (induction xs) (auto simp: neq_Nil_conv takeWhile_eq_Nil_iff dropWhile_eq_self_iff)

lemma parseFString_literal:
  assumes "xs \<noteq> []" "list_all (\<lambda>c. \<not> is_bracket c) xs" "rest = [] \<or> is_bracket (hd rest)"
  shows "parseFString (xs @ rest) = add_node (Literal xs) (parseFString rest)"
proof -
  from assms(1) obtain c cs where xs: "xs = c # cs" by (cases xs) auto
  with assms(2) have c: "\<not> is_bracket c" and cs: "list_all (\<lambda>c. \<not> is_bracket c) cs" by auto
  from c have "c \<noteq> CHR ''{''" "c \<noteq> CHR ''}''" by (auto simp: is_bracket_def)
  then show ?thesis
    using takeWhile_no_bracket [OF cs assms(3)] by (simp add: xs)
qed

lemma parseFString_placeholders:
  "parseFString (''{lang}'' @ human_middle @ ''{diff}'') =
     Inr [Variable ''lang'', Literal human_middle, Variable ''diff'']"
  by (simp add: human_middle_def is_bracket_def add_node_def)

lemma parseFString_human_template:
  "parseFString human_template =
     Inr [Literal human_prefix, Variable ''lang'', Literal human_middle, Variable ''diff'']"
proof -
  have "parseFString (human_prefix @ (''{lang}'' @ human_middle @ ''{diff}'')) =
          add_node (Literal human_prefix) (parseFString (''{lang}'' @ human_middle @ ''{diff}''))"
    by (rule parseFString_literal [OF human_prefix_nonempty human_prefix_no_bracket])
       (simp add: is_bracket_def)
  then show ?thesis
    unfolding human_template_split parseFString_placeholders by (simp add: add_node_def)
qed

lemma parseFString_system_template:
  "parseFString system_template = Inr [Literal system_template]"
  using parseFString_literal [OF system_template_nonempty system_template_no_bracket, of "[]"]
  by (simp add: add_node_def)

lemma formatMessages_chatPrompt:
  "formatMessages chatPrompt (call_values lang diff) = Inr (review_messages lang diff)"
  by (simp add: chatPrompt_def renderTemplate_def parseFString_human_template
        parseFString_system_template call_values_def review_messages_def js_to_string_def)

section \<open>The retried model call\<close>

lemma submitted_Nil: "submitted [] w = w"
  by (simp add: submitted_def)

lemma submitted_submitted: "submitted b (submitted a w) = submitted (a @ b) w"
  by (simp add: submitted_def)

lemma tryPromise_chain_call:
  "Effect_tryPromise (chain_call env (call_values lang diff)) w =
     (case llm env w (review_messages lang diff) of
        Inl rejection \<Rightarrow> Inl (Fail (UnknownException rejection))
      | Inr v \<Rightarrow> Inr v,
      submitted [review_messages lang diff] w)"
  by (simp add: Effect_tryPromise_def chain_call_def formatMessages_chatPrompt submitted_def
        split: sum.splits)

lemma withRetry_attempt_all_fail:
  "attempt + n = maxAttempts \<Longrightarrow>
   (\<forall>i\<le>n. llm env (submitted (replicate i (review_messages lang diff)) w)
            (review_messages lang diff) = Inl (err i)) \<Longrightarrow>
   withRetry_attempt attempt (Effect_tryPromise (chain_call env (call_values lang diff)))
     maxAttempts w =
     (Inl (Fail (UnknownException (err n))),
      submitted (replicate (Suc n) (review_messages lang diff)) w)"
proof (induction n arbitrary: attempt w err)
  case 0
  then have "llm env w (review_messages lang diff) = Inl (err 0)"
    by (simp add: submitted_Nil)
  with 0 show ?case
    by (subst withRetry_attempt.simps) (simp add: tryPromise_chain_call)
next
  case (Suc n)
  let ?m = "review_messages lang diff"
  from Suc.prems(2) have first: "llm env w ?m = Inl (err 0)"
    by (metis le0 replicate_0 submitted_Nil)
  have later: "\<forall>i\<le>n. llm env (submitted (replicate i ?m) (submitted [?m] w)) ?m = Inl ((err \<circ> Suc) i)"
    using Suc.prems(2) by (simp add: submitted_submitted) (metis Suc_le_mono replicate_Suc)
  from Suc.prems(1) have next_attempt: "Suc attempt + n = maxAttempts" by simp
  from Suc.prems(1) first
  have "withRetry_attempt attempt (Effect_tryPromise (chain_call env (call_values lang diff)))
          maxAttempts w =
        withRetry_attempt (Suc attempt) (Effect_tryPromise (chain_call env (call_values lang diff)))
          maxAttempts (submitted [?m] w)"
    by (subst withRetry_attempt.simps) (simp add: tryPromise_chain_call)
  also have "\<dots> = (Inl (Fail (UnknownException ((err \<circ> Suc) n))),
                     submitted (replicate (Suc n) ?m) (submitted [?m] w))"
    by (rule Suc.IH [OF next_attempt later])
  finally show ?case
    by (simp add: submitted_submitted)
qed

lemma withRetry_attempt_succeeds:
  "attempt + k \<le> maxAttempts \<Longrightarrow>
   (\<forall>i<k. llm env (submitted (replicate i (review_messages lang diff)) w)
            (review_messages lang diff) = Inl (err i)) \<Longrightarrow>
   llm env (submitted (replicate k (review_messages lang diff)) w)
     (review_messages lang diff) = Inr v \<Longrightarrow>
   withRetry_attempt attempt (Effect_tryPromise (chain_call env (call_values lang diff)))
     maxAttempts w =
     (Inr v, submitted (replicate (Suc k) (review_messages lang diff)) w)"
proof (induction k arbitrary: attempt w err)
  case 0
  then show ?case
    by (subst withRetry_attempt.simps) (simp add: tryPromise_chain_call submitted_Nil)
next
  case (Suc k)
  let ?m = "review_messages lang diff"
  from Suc.prems(2) have first: "llm env w ?m = Inl (err 0)"
    by (metis zero_less_Suc replicate_0 submitted_Nil)
  have later: "\<forall>i<k. llm env (submitted (replicate i ?m) (submitted [?m] w)) ?m = Inl ((err \<circ> Suc) i)"
    using Suc.prems(2) by (simp add: submitted_submitted) (metis Suc_less_eq replicate_Suc)
  have last: "llm env (submitted (replicate k ?m) (submitted [?m] w)) ?m = Inr v"
    using Suc.prems(3) by (simp add: submitted_submitted)
  from Suc.prems(1) have next_attempt: "Suc attempt + k \<le> maxAttempts" by simp
  from Suc.prems(1) first
  have "withRetry_attempt attempt (Effect_tryPromise (chain_call env (call_values lang diff)))
          maxAttempts w =
        withRetry_attempt (Suc attempt) (Effect_tryPromise (chain_call env (call_values lang diff)))
          maxAttempts (submitted [?m] w)"
    by (subst withRetry_attempt.simps) (simp add: tryPromise_chain_call)
  also have "\<dots> = (Inr v, submitted (replicate (Suc k) ?m) (submitted [?m] w))"
    by (rule Suc.IH [OF next_attempt later last])
  finally show ?case
    by (simp add: submitted_submitted)
qed

lemma codeReviewFor_unfold:
  "detectLanguage env (filename file) = Some lang \<Longrightarrow>
   codeReviewFor env file w =
     withRetry_attempt 1 (Effect_tryPromise (chain_call env (call_values lang (patch file)))) 3 w"
  by (simp add: codeReviewFor_def detectLanguage_effect_def Effect_flatMap_def Effect_succeed_def
        withRetry_def call_values_def)

section \<open>The chunk by chunk model calls\<close>

lemma Effect_all_chunks_Cons:
  "Effect_all (Effect_tryPromise (chain_call env (call_values lang diff)) # effects) w =
     (case llm env w (review_messages lang diff) of
        Inl rejection \<Rightarrow>
          (Inl (Fail (UnknownException rejection)), submitted [review_messages lang diff] w)
      | Inr v \<Rightarrow>
          (case Effect_all effects (submitted [review_messages lang diff] w) of
             (Inl cause, w') \<Rightarrow> (Inl cause, w')
           | (Inr vs, w') \<Rightarrow> (Inr (v # vs), w')))"
  by (simp add: Effect_all_def tryPromise_chain_call split: sum.splits)

lemma Effect_all_chunks_succeed:
  "length rs = length cs \<Longrightarrow>
   (\<forall>i<length cs. llm env (submitted (chunk_requests lang (take i cs)) w)
        (review_messages lang (Some (content (cs ! i)))) = Inr (rs ! i)) \<Longrightarrow>
   Effect_all (map (\<lambda>chunk. Effect_tryPromise (chain_call env (call_values lang (Some (content chunk))))) cs) w =
     (Inr rs, submitted (chunk_requests lang cs) w)"
proof (induction cs arbitrary: rs w)
  case Nil
  then show ?case by (simp add: Effect_all_def chunk_requests_def submitted_Nil)
next
  case (Cons c cs)
  from Cons.prems(1) obtain r rs' where rs: "rs = r # rs'" and len: "length rs' = length cs"
    by (cases rs) auto
  let ?m = "review_messages lang (Some (content c))"
  from Cons.prems(2) have first: "llm env w ?m = Inr r"
    by (auto simp: rs chunk_requests_def submitted_Nil dest: spec [of _ 0])
  have later: "\<forall>i<length cs. llm env (submitted (chunk_requests lang (take i cs)) (submitted [?m] w))
        (review_messages lang (Some (content (cs ! i)))) = Inr (rs' ! i)"
  proof (intro allI impI)
    fix i assume "i < length cs"
    with Cons.prems(2) [rule_format, of "Suc i"] show "llm env (submitted (chunk_requests lang (take i cs)) (submitted [?m] w))
        (review_messages lang (Some (content (cs ! i)))) = Inr (rs' ! i)"
      by (simp add: rs chunk_requests_def submitted_submitted)
  qed
  from Cons.IH [OF len later] first show ?case
    by (simp add: Effect_all_chunks_Cons rs submitted_submitted chunk_requests_def)
qed

lemma Effect_all_chunks_fail:
  "j < length cs \<Longrightarrow>
   (\<forall>i<j. \<exists>v. llm env (submitted (chunk_requests lang (take i cs)) w)
        (review_messages lang (Some (content (cs ! i)))) = Inr v) \<Longrightarrow>
   llm env (submitted (chunk_requests lang (take j cs)) w)
        (review_messages lang (Some (content (cs ! j)))) = Inl e \<Longrightarrow>
   Effect_all (map (\<lambda>chunk. Effect_tryPromise (chain_call env (call_values lang (Some (content chunk))))) cs) w =
     (Inl (Fail (UnknownException e)), submitted (chunk_requests lang (take (Suc j) cs)) w)"
proof (induction cs arbitrary: j w)
  case Nil
  then show ?case by simp
next
  case (Cons c cs)
  let ?m = "review_messages lang (Some (content c))"
  show ?case
  proof (cases j)
    case 0
    with Cons.prems(3) show ?thesis
      by (simp add: Effect_all_chunks_Cons chunk_requests_def submitted_Nil)
  next
    case (Suc j')
    from Cons.prems(2) [rule_format, of 0] Suc obtain v where first: "llm env w ?m = Inr v"
      by (auto simp: chunk_requests_def submitted_Nil)
    from Cons.prems(1) Suc have j': "j' < length cs" by simp
    have earlier: "\<forall>i<j'. \<exists>v. llm env (submitted (chunk_requests lang (take i cs)) (submitted [?m] w))
        (review_messages lang (Some (content (cs ! i)))) = Inr v"
    proof (intro allI impI)
      fix i assume "i < j'"
      with Cons.prems(2) [rule_format, of "Suc i"] Suc
      show "\<exists>v. llm env (submitted (chunk_requests lang (take i cs)) (submitted [?m] w))
        (review_messages lang (Some (content (cs ! i)))) = Inr v"
        by (simp add: chunk_requests_def submitted_submitted)
    qed
    have failing: "llm env (submitted (chunk_requests lang (take j' cs)) (submitted [?m] w))
        (review_messages lang (Some (content (cs ! j')))) = Inl e"
      using Cons.prems(3) Suc by (simp add: chunk_requests_def submitted_submitted)
    from Cons.IH [OF j' earlier failing] first Suc show ?thesis
      by (simp add: Effect_all_chunks_Cons submitted_submitted chunk_requests_def)
  qed
qed

lemma Effect_all_chunks_world:
  "\<exists>k\<le>length cs.
     snd (Effect_all (map (\<lambda>chunk. Effect_tryPromise (chain_call env (call_values lang (Some (content chunk))))) cs) w) =
       submitted (chunk_requests lang (take k cs)) w"
proof (induction cs arbitrary: w)
  case Nil
  then show ?case by (simp add: Effect_all_def chunk_requests_def submitted_Nil)
next
  case (Cons c cs)
  let ?m = "review_messages lang (Some (content c))"
  show ?case
  proof (cases "llm env w ?m")
    case (Inl e)
    then have "snd (Effect_all (map (\<lambda>chunk. Effect_tryPromise (chain_call env (call_values lang (Some (content chunk))))) (c # cs)) w) =
       submitted (chunk_requests lang (take (Suc 0) (c # cs))) w"
      by (simp add: Effect_all_chunks_Cons chunk_requests_def)
    then show ?thesis by (intro exI [of _ "Suc 0"]) simp
  next
    case (Inr v)
    from Cons.IH [of "submitted [?m] w"] obtain k where k: "k \<le> length cs"
      and w': "snd (Effect_all (map (\<lambda>chunk. Effect_tryPromise (chain_call env (call_values lang (Some (content chunk))))) cs) (submitted [?m] w)) =
       submitted (chunk_requests lang (take k cs)) (submitted [?m] w)"
      by blast
    from Inr w' have "snd (Effect_all (map (\<lambda>chunk. Effect_tryPromise (chain_call env (call_values lang (Some (content chunk))))) (c # cs)) w) =
       submitted (chunk_requests lang (take (Suc k) (c # cs))) w"
      by (auto simp: Effect_all_chunks_Cons chunk_requests_def submitted_submitted split: prod.splits sum.splits)
    with k show ?thesis by (intro exI [of _ "Suc k"]) simp
  qed
qed

lemma codeReviewForChunks_unfold:
  "detectLanguage env (filename file) = Some lang \<Longrightarrow> parseDiff env (patch file) = fd # rest \<Longrightarrow>
   codeReviewForChunks env file w =
     Effect_all (map (\<lambda>chunk. Effect_tryPromise (chain_call env (call_values lang (Some (content chunk))))) (chunks fd)) w"
  by (simp add: codeReviewForChunks_def detectLanguage_effect_def Effect_flatMap_def
        Effect_all2_def Effect_succeed_def call_values_def)

lemma chain_call_parseDiff_update:
  "chain_call (env\<lparr>parseDiff := pd\<rparr>) = chain_call env"
  by (intro ext) (simp add: chain_call_def split: sum.splits)

section \<open>The orchestration loop\<close>

lemma withRetry_attempt_world:
  "\<exists>k\<ge>1. snd (withRetry_attempt attempt (Effect_tryPromise (chain_call env (call_values lang diff)))
            maxAttempts w) = submitted (replicate k (review_messages lang diff)) w"
proof (induction "maxAttempts - attempt" arbitrary: attempt w)
  case 0
  then have "snd (withRetry_attempt attempt (Effect_tryPromise (chain_call env (call_values lang diff)))
            maxAttempts w) = submitted (replicate 1 (review_messages lang diff)) w"
    by (subst withRetry_attempt.simps) (simp add: tryPromise_chain_call split: sum.splits)
  then show ?case by (intro exI [of _ 1]) simp
next
  case (Suc n)
  let ?m = "review_messages lang diff"
  let ?op = "Effect_tryPromise (chain_call env (call_values lang diff))"
  show ?case
  proof (cases "llm env w ?m")
    case (Inr v)
    then have "snd (withRetry_attempt attempt ?op maxAttempts w) = submitted (replicate 1 ?m) w"
      by (subst withRetry_attempt.simps) (simp add: tryPromise_chain_call)
    then show ?thesis by (intro exI [of _ 1]) simp
  next
    case (Inl e)
    from Suc.hyps(2) have lt: "attempt < maxAttempts" and n: "n = maxAttempts - Suc attempt"
      by simp_all
    from Inl lt have step: "withRetry_attempt attempt ?op maxAttempts w =
        withRetry_attempt (Suc attempt) ?op maxAttempts (submitted [?m] w)"
      by (subst withRetry_attempt.simps) (simp add: tryPromise_chain_call)
    from Suc.hyps(1) [OF n, of "submitted [?m] w"] obtain k where
      "snd (withRetry_attempt (Suc attempt) ?op maxAttempts (submitted [?m] w)) =
         submitted (replicate k ?m) (submitted [?m] w)"
      by blast
    with step have "snd (withRetry_attempt attempt ?op maxAttempts w) =
        submitted (replicate (Suc k) ?m) w"
      by (simp add: submitted_submitted)
    then show ?thesis by (intro exI [of _ "Suc k"]) simp
  qed
qed

lemma codeReviewFor_no_language:
  "detectLanguage env (filename file) = None \<Longrightarrow>
   codeReviewFor env file w = (Inl (Fail NoSuchElementException), w)"
  by (simp add: codeReviewFor_def detectLanguage_effect_def Effect_flatMap_def Effect_fail_def)

lemma codeReviewFor_world:
  "detectLanguage env (filename file) = Some lang \<Longrightarrow>
   \<exists>k\<ge>1. snd (codeReviewFor env file w) = submitted (replicate k (review_messages lang (patch file))) w"
  using withRetry_attempt_world [of 1 env lang "patch file" 3 w]
  by (simp add: codeReviewFor_unfold)

lemma review_and_comment_unfold:
  "review_and_comment env context file w =
     (case codeReviewFor env file w of
        (Inl c, w') \<Rightarrow> (Inl c, w')
      | (Inr res, w') \<Rightarrow>
          (createReviewComment env w' (comment_request context file res),
           commented (comment_request context file res) w'))"
  by (simp add: review_and_comment_def Effect_flatMap_def createReviewComment_effect_def
        comment_request_def commented_def split: prod.splits sum.splits)

lemma Effect_forEach_stops:
  "Effect_forEach xs f w = (Inr us, w1) \<Longrightarrow> f y w1 = (Inl c, w2) \<Longrightarrow>
   Effect_forEach (xs @ y # ys) f w = (Inl c, w2)"
  by (induction xs arbitrary: w us) (auto split: prod.splits sum.splits)

lemma reviews_only_refl: "reviews_only env context fs w w"
  by (simp add: reviews_only_def)

lemma reviews_only_trans:
  "reviews_only env context fs w w1 \<Longrightarrow> reviews_only env context gs w1 w2 \<Longrightarrow>
   set fs \<subseteq> set hs \<Longrightarrow> set gs \<subseteq> set hs \<Longrightarrow> reviews_only env context hs w w2"
  unfolding reviews_only_def
  apply (elim conjE exE)
  subgoal for ms cs ms' cs'
    apply (intro conjI)
       apply simp
      apply simp
     apply (rule exI [of _ "ms @ ms'"])
     apply (simp, blast)
    apply (rule exI [of _ "cs @ cs'"])
    apply (simp, blast)
    done
  done

lemma reviews_only_submitted:
  "f \<in> set fs \<Longrightarrow> patch f = Some d \<Longrightarrow>
   reviews_only env context fs w (submitted (replicate k (review_messages lang (patch f))) w)"
  unfolding reviews_only_def submitted_def
  by (auto intro!: exI [of _ "replicate k (review_messages lang (Some d))"])

lemma reviews_only_commented:
  "f \<in> set fs \<Longrightarrow> patch f = Some d \<Longrightarrow>
   reviews_only env context fs w (commented (comment_request context f res) w)"
  unfolding reviews_only_def commented_def
  by (auto intro!: exI [of _ "[comment_request context f res]"] simp: comment_request_def)

lemma review_and_comment_reviews_only:
  assumes "patch f = Some d"
  shows "reviews_only env context [f] w (snd (review_and_comment env context f w))"
proof (cases "detectLanguage env (filename f)")
  case None
  then show ?thesis
    by (simp add: review_and_comment_unfold codeReviewFor_no_language reviews_only_refl)
next
  case (Some lang)
  from codeReviewFor_world [OF Some, of w] obtain k where
    k: "snd (codeReviewFor env f w) = submitted (replicate k (review_messages lang (patch f))) w"
    by blast
  have one: "reviews_only env context [f] w (snd (codeReviewFor env f w))"
    unfolding k by (rule reviews_only_submitted [OF _ assms]) simp
  show ?thesis
  proof (cases "codeReviewFor env f w")
    case (Pair r w')
    show ?thesis
    proof (cases r)
      case (Inl c)
      with Pair one show ?thesis by (simp add: review_and_comment_unfold)
    next
      case (Inr res)
      have "reviews_only env context [f] w' (commented (comment_request context f res) w')"
        by (rule reviews_only_commented [OF _ assms]) simp
      with one Pair have "reviews_only env context [f] w (commented (comment_request context f res) w')"
        by (auto intro: reviews_only_trans)
      with Pair Inr show ?thesis by (simp add: review_and_comment_unfold)
    qed
  qed
qed

lemma Effect_forEach_reviews_only:
  "\<forall>f \<in> set fs. patch f \<noteq> None \<Longrightarrow>
   reviews_only env context fs w (snd (Effect_forEach fs (review_and_comment env context) w))"
proof (induction fs arbitrary: w)
  case Nil
  then show ?case by (simp add: reviews_only_refl)
next
  case (Cons f fs)
  from Cons.prems obtain d where d: "patch f = Some d" by auto
  from Cons.prems have rest: "\<forall>f \<in> set fs. patch f \<noteq> None" by simp
  have one: "reviews_only env context [f] w (snd (review_and_comment env context f w))"
    by (rule review_and_comment_reviews_only [OF d])
  show ?case
  proof (cases "review_and_comment env context f w")
    case (Pair r w1)
    show ?thesis
    proof (cases r)
      case (Inl c)
      with Pair one have "reviews_only env context [f] w w1" by simp
      moreover have "reviews_only env context [] w1 w1"
        by (rule reviews_only_refl)
      ultimately have "reviews_only env context (f # fs) w w1"
        by (rule reviews_only_trans) simp_all
      with Pair Inl show ?thesis by simp
    next
      case (Inr u)
      from Pair one have fst_step: "reviews_only env context [f] w w1" by simp
      have snd_step: "reviews_only env context fs w1 (snd (Effect_forEach fs (review_and_comment env context) w1))"
        by (rule Cons.IH [OF rest])
      have "reviews_only env context (f # fs) w (snd (Effect_forEach fs (review_and_comment env context) w1))"
        by (rule reviews_only_trans [OF fst_step snd_step]) auto
      with Pair Inr show ?thesis by (auto split: prod.splits sum.splits)
    qed
  qed
qed

section \<open>The run\<close>

lemma pull_request_program_unfold:
  "pull_request_program env context w =
     (case getFilesForReview env w (context_owner context) (context_repo context)
             (payload_number context) (excludeFilePatterns context) of
        Inl c \<Rightarrow> (Inl c, listed (excludeFilePatterns context) w)
      | Inr files \<Rightarrow>
          Effect_forEach (filter (\<lambda>file. patch file \<noteq> None) files)
            (review_and_comment env context) (listed (excludeFilePatterns context) w))"
  by (simp add: pull_request_program_def Effect_flatMap_def Effect_succeed_def
        getFilesForReview_effect_def listed_def split: sum.splits)

lemma run_pull_request:
  "eventName context = ''pull_request'' \<Longrightarrow>
   run_program env context w =
     (case pull_request_program env context w of
        (Inl c, w') \<Rightarrow> setFailed (cause_toString env c) w'
      | (Inr us, w') \<Rightarrow> w')"
  by (simp add: run_program_def runPromiseExit_def split: prod.splits sum.splits)

lemma run_listed_files:
  assumes "eventName context = ''pull_request''"
    and "getFilesForReview env w (context_owner context) (context_repo context)
           (payload_number context) (excludeFilePatterns context) = Inr files"
  shows "run_program env context w =
     (case Effect_forEach (filter (\<lambda>file. patch file \<noteq> None) files)
             (review_and_comment env context) (listed (excludeFilePatterns context) w) of
        (Inl c, w') \<Rightarrow> setFailed (cause_toString env c) w'
      | (Inr us, w') \<Rightarrow> w')"
  by (simp add: run_pull_request [OF assms(1)] pull_request_program_unfold assms(2))

lemma codeReviewFor_first_attempt:
  assumes "detectLanguage env (filename file) = Some lang"
    and "llm env w (review_messages lang (patch file)) = Inr v"
  shows "codeReviewFor env file w = (Inr v, submitted [review_messages lang (patch file)] w)"
  using withRetry_attempt_succeeds [of 1 0 3 env lang "patch file" w undefined v] assms(2)
  by (simp add: codeReviewFor_unfold [OF assms(1)] submitted_Nil)

lemma codeReviewFor_exhausted:
  assumes "detectLanguage env (filename file) = Some lang"
    and "\<forall>i\<le>2. llm env (submitted (replicate i (review_messages lang (patch file))) w)
            (review_messages lang (patch file)) = Inl (err i)"
  shows "codeReviewFor env file w =
           (Inl (Fail (UnknownException (err 2))),
            submitted (replicate 3 (review_messages lang (patch file))) w)"
  using withRetry_attempt_all_fail [OF _ assms(2), of 1 3]
  by (simp add: codeReviewFor_unfold [OF assms(1)] numeral_3_eq_3)

lemma js_split_nonempty: "js_split sep s \<noteq> []"
  by (induction s) (auto split: list.splits)

lemma length_js_split: "length (js_split sep s) = Suc (count_list s sep)"
  by (induction s) (auto split: list.splits simp: js_split_nonempty)

lemma js_split_pieces: "\<forall>p \<in> set (js_split sep s). sep \<notin> set p"
  by (induction s) (auto split: list.splits)

lemma chain_call_getFilesForReview_update:
  "chain_call (env\<lparr>getFilesForReview := g\<rparr>) = chain_call env"
  by (intro ext) (simp add: chain_call_def split: sum.splits)

lemma review_and_comment_getFilesForReview_update:
  "review_and_comment (env\<lparr>getFilesForReview := g\<rparr>) = review_and_comment env"
  by (intro ext)
     (simp add: review_and_comment_def codeReviewFor_def detectLanguage_effect_def
        chain_call_getFilesForReview_update createReviewComment_effect_def)

lemma run_constructed:
  "new_ChatOpenAI env (input_model_temperature context) (input_openai_api_key context)
     (input_model_name context) = None \<Longrightarrow>
   getOctokit env (input_github_token context) = None \<Longrightarrow>
   run env context w = Inr (run_program env context w)"
  by (simp add: run_def)

lemma run_rejects:
  "new_ChatOpenAI env (input_model_temperature context) (input_openai_api_key context)
     (input_model_name context) = Some thrown \<or>
   new_ChatOpenAI env (input_model_temperature context) (input_openai_api_key context)
     (input_model_name context) = None \<and>
   getOctokit env (input_github_token context) = Some thrown \<Longrightarrow>
   run env context w = Inl thrown"
  by (auto simp: run_def)

lemma js_join_js_split: "js_join sep (js_split sep s) = s"
proof (induction s)
  case Nil
  show ?case by (simp add: js_join_def)
next
  case (Cons c s)
  obtain p ps where ps: "js_split sep s = p # ps"
    using js_split_nonempty [of sep s] by (cases "js_split sep s") auto
  with Cons show ?case by (simp add: js_join_def)
qed

lemma trim_decomposition:
  "\<exists>l r. s = l @ trim s @ r \<and> list_all is_whitespace l \<and> list_all is_whitespace r"
proof -
  let ?t = "dropWhile is_whitespace s"
  have s: "s = takeWhile is_whitespace s @ ?t" by simp
  have "?t = rev (takeWhile is_whitespace (rev ?t) @ dropWhile is_whitespace (rev ?t))"
    by (simp only: takeWhile_dropWhile_id rev_rev_ident)
  also have "\<dots> = rev (dropWhile is_whitespace (rev ?t)) @ rev (takeWhile is_whitespace (rev ?t))"
    by (rule rev_append)
  finally have t: "?t = trim s @ rev (takeWhile is_whitespace (rev ?t))"
    unfolding trim_def .
  have l: "list_all is_whitespace (takeWhile is_whitespace s)"
    by (auto simp: list_all_iff dest: set_takeWhileD)
  have r: "list_all is_whitespace (rev (takeWhile is_whitespace (rev ?t)))"
    by (auto simp: list_all_iff dest: set_takeWhileD)
  from s t have "s = takeWhile is_whitespace s @ trim s @ rev (takeWhile is_whitespace (rev ?t))"
    by metis
  with l r show ?thesis by blast
qed

lemma last_dropWhile:
  "dropWhile P xs \<noteq> [] \<Longrightarrow> last (dropWhile P xs) = last xs"
  by (metis last_appendR takeWhile_dropWhile_id)

lemma trim_ends:
  "trim s = [] \<or> (\<not> is_whitespace (hd (trim s)) \<and> \<not> is_whitespace (last (trim s)))"
proof (cases "trim s = []")
  case True
  then show ?thesis by simp
next
  case False
  define t where "t = dropWhile is_whitespace s"
  define u where "u = dropWhile is_whitespace (rev t)"
  have trim: "trim s = rev u" by (simp add: trim_def t_def u_def)
  with False have u: "u \<noteq> []" by simp
  then have t: "t \<noteq> []" unfolding u_def by (cases t) auto
  from u have "\<not> is_whitespace (hd u)" unfolding u_def by (rule hd_dropWhile)
  with u have last_ok: "\<not> is_whitespace (last (trim s))" by (simp add: trim last_rev)
  from t have "\<not> is_whitespace (hd t)" unfolding t_def by (rule hd_dropWhile)
  moreover from u have "last u = last (rev t)" unfolding u_def by (rule last_dropWhile)
  moreover from t have "last (rev t) = hd t" by (simp add: last_rev)
  moreover from u have "hd (rev u) = last u" by (simp add: hd_rev)
  ultimately have "\<not> is_whitespace (hd (trim s))" by (simp add: trim)
  with last_ok show ?thesis by simp
qed

section \<open>The prompt of a whole-file review\<close>

lemma codeReviewFor_prompts:
  assumes "detectLanguage env (filename file) = Some lang" and "patch file = Some diff"
  shows "\<exists>k\<ge>1. model_requests (snd (codeReviewFor env file w)) =
           model_requests w @
             replicate k [SystemMessage system_template,
                          HumanMessage (human_prefix @ lang @ human_middle @ diff)]"
proof -
  from codeReviewFor_world [OF assms(1), of w] obtain k where "1 \<le> k" and
    "snd (codeReviewFor env file w) = submitted (replicate k (review_messages lang (patch file))) w"
    by blast
  then have "1 \<le> k \<and> model_requests (snd (codeReviewFor env file w)) =
           model_requests w @
             replicate k [SystemMessage system_template,
                          HumanMessage (human_prefix @ lang @ human_middle @ diff)]"
    by (simp add: submitted_def review_messages_def assms(2) js_to_string_def)
  then show ?thesis by blast
qed

lemma no_bracket_not_sublist:
  assumes "list_all (\<lambda>c. \<not> is_bracket c) ys" and "CHR ''{'' \<in> set xs"
  shows "\<not> sublist xs ys"
proof
  assume "sublist xs ys"
  then have "set xs \<subseteq> set ys" by (rule set_mono_sublist)
  with assms(2) have "CHR ''{'' \<in> set ys" by blast
  with assms(1) show False by (auto simp: list_all_iff is_bracket_def)
qed

lemma greeter_prompt_no_bracket:
  "list_all (\<lambda>c. \<not> is_bracket c) (human_prefix @ ''Java'' @ human_middle @ ''@@ -1,3 +1,3 @@'')"
  using human_prefix_no_bracket by (simp add: human_middle_def is_bracket_def)

subsection \<open>C1: the model call of codeReviewFor is attempted at most three times\<close>

text \<open>
  Claim C1. When the language of the file is detected, \<open>codeReviewFor\<close> wraps the model
  call in the Retry Policy with attempt bound 3. If the call fails on all three attempts,
  it is invoked exactly three times (three prompts are added to the world) and the failure
  that propagates holds the error of the third attempt. If it first succeeds on attempt
  \<open>k \<le> 3\<close>, it is invoked exactly \<open>k\<close> times and the result is that attempt's result.
\<close>

theorem codeReviewFor_retry_bound:
  assumes "detectLanguage env (filename file) = Some lang"
  shows "((\<forall>i<3. llm env (submitted (replicate i (review_messages lang (patch file))) w)
                (review_messages lang (patch file)) = Inl (err i)) \<longrightarrow>
          codeReviewFor env file w =
            (Inl (Fail (UnknownException (err 2))),
             submitted (replicate 3 (review_messages lang (patch file))) w)) \<and>
         (\<forall>k v. 1 \<le> k \<and> k \<le> 3 \<and>
            (\<forall>i<k - 1. llm env (submitted (replicate i (review_messages lang (patch file))) w)
                (review_messages lang (patch file)) = Inl (err i)) \<and>
            llm env (submitted (replicate (k - 1) (review_messages lang (patch file))) w)
                (review_messages lang (patch file)) = Inr v \<longrightarrow>
          codeReviewFor env file w =
            (Inr v, submitted (replicate k (review_messages lang (patch file))) w))"
proof (intro conjI impI allI)
  assume "\<forall>i<3. llm env (submitted (replicate i (review_messages lang (patch file))) w)
                (review_messages lang (patch file)) = Inl (err i)"
  then have "\<forall>i\<le>2. llm env (submitted (replicate i (review_messages lang (patch file))) w)
                (review_messages lang (patch file)) = Inl (err i)"
    by auto
  from withRetry_attempt_all_fail [OF _ this, of 1 3]
  show "codeReviewFor env file w =
            (Inl (Fail (UnknownException (err 2))),
             submitted (replicate 3 (review_messages lang (patch file))) w)"
    by (simp add: codeReviewFor_unfold [OF assms] numeral_3_eq_3)
next
  fix k v
  assume h: "1 \<le> k \<and> k \<le> 3 \<and>
            (\<forall>i<k - 1. llm env (submitted (replicate i (review_messages lang (patch file))) w)
                (review_messages lang (patch file)) = Inl (err i)) \<and>
            llm env (submitted (replicate (k - 1) (review_messages lang (patch file))) w)
                (review_messages lang (patch file)) = Inr v"
  then have "1 + (k - 1) \<le> (3::nat)" by simp
  from withRetry_attempt_succeeds [OF this, of env lang "patch file" w err v] h
  show "codeReviewFor env file w =
            (Inr v, submitted (replicate k (review_messages lang (patch file))) w)"
    by (simp add: codeReviewFor_unfold [OF assms])
qed

theorem codeReviewFor_retry_bound_witness:
  "codeReviewFor (example_env down_model) foo_file empty_world =
     (Inl (Fail (UnknownException ''503 Service Unavailable'')),
      submitted (replicate 3 (review_messages ''Java'' (patch foo_file))) empty_world) \<and>
   codeReviewFor (example_env flaky_model) foo_file empty_world =
     (Inr \<lparr>res_text = ''Looks good.''\<rparr>,
      submitted (replicate 3 (review_messages ''Java'' (patch foo_file))) empty_world)"
proof
  have d: "detectLanguage (example_env down_model) (filename foo_file) = Some ''Java''"
    by (simp add: example_env_def)
  have "\<forall>i<3. llm (example_env down_model)
            (submitted (replicate i (review_messages ''Java'' (patch foo_file))) empty_world)
            (review_messages ''Java'' (patch foo_file)) = Inl ''503 Service Unavailable''"
    by (simp add: example_env_def down_model_def)
  with codeReviewFor_retry_bound [OF d, of empty_world "\<lambda>i. ''503 Service Unavailable''"]
  show "codeReviewFor (example_env down_model) foo_file empty_world =
     (Inl (Fail (UnknownException ''503 Service Unavailable'')),
      submitted (replicate 3 (review_messages ''Java'' (patch foo_file))) empty_world)"
    by blast
next
  have d: "detectLanguage (example_env flaky_model) (filename foo_file) = Some ''Java''"
    by (simp add: example_env_def)
  have "1 \<le> (3::nat) \<and> (3::nat) \<le> 3 \<and>
        (\<forall>i<3 - 1. llm (example_env flaky_model)
            (submitted (replicate i (review_messages ''Java'' (patch foo_file))) empty_world)
            (review_messages ''Java'' (patch foo_file)) = Inl ''429 Too Many Requests'') \<and>
        llm (example_env flaky_model)
            (submitted (replicate (3 - 1) (review_messages ''Java'' (patch foo_file))) empty_world)
            (review_messages ''Java'' (patch foo_file)) = Inr \<lparr>res_text = ''Looks good.''\<rparr>"
    by (simp add: example_env_def flaky_model_def submitted_def empty_world_def)
  with codeReviewFor_retry_bound [OF d, of empty_world "\<lambda>i. ''429 Too Many Requests''"]
  show "codeReviewFor (example_env flaky_model) foo_file empty_world =
     (Inr \<lparr>res_text = ''Looks good.''\<rparr>,
      submitted (replicate 3 (review_messages ''Java'' (patch foo_file))) empty_world)"
    by blast
qed

subsection \<open>C2: one request and one result per hunk, in the order of the hunks\<close>

text \<open>
  Claim C2. Let the language be detected and let the first entry of the parsed patch have
  the chunks \<open>chunks fd\<close>, \<open>H\<close> of them. When the model answers the request of chunk \<open>i\<close>
  with \<open>rs ! i\<close> (each request being made after the requests of the chunks before it),
  \<open>codeReviewForChunks\<close> submits exactly the \<open>H\<close> prompts of the chunks, one per chunk and
  in chunk order, and returns the \<open>H\<close> results \<open>rs\<close>, result \<open>i\<close> being the answer to the
  request of chunk \<open>i\<close>. \<^verbatim>\<open>Effect.all\<close> runs with its default options, one call after the
  other, so the order of completion is the order of the chunks.
\<close>

theorem codeReviewForChunks_results_in_chunk_order:
  assumes "detectLanguage env (filename file) = Some lang"
    and "parseDiff env (patch file) = fd # rest"
    and "length rs = length (chunks fd)"
    and "\<forall>i<length (chunks fd).
           llm env (submitted (chunk_requests lang (take i (chunks fd))) w)
             (review_messages lang (Some (content (chunks fd ! i)))) = Inr (rs ! i)"
  shows "codeReviewForChunks env file w =
           (Inr rs, submitted (chunk_requests lang (chunks fd)) w) \<and>
         length (chunk_requests lang (chunks fd)) = length (chunks fd)"
  using Effect_all_chunks_succeed [OF assms(3) assms(4)]
  by (simp add: codeReviewForChunks_unfold [OF assms(1) assms(2)] chunk_requests_def)

theorem codeReviewForChunks_results_in_chunk_order_witness:
  "codeReviewForChunks (example_env numbering_model) foo_file empty_world =
     (Inr [\<lparr>res_text = ''first review''\<rparr>, \<lparr>res_text = ''second review''\<rparr>],
      submitted (chunk_requests ''Java'' (chunks first_file_diff)) empty_world) \<and>
   length (chunk_requests ''Java'' (chunks first_file_diff)) = length (chunks first_file_diff)"
proof -
  have d: "detectLanguage (example_env numbering_model) (filename foo_file) = Some ''Java''"
    by (simp add: example_env_def)
  have p: "parseDiff (example_env numbering_model) (patch foo_file) = first_file_diff # tl two_file_diff"
    by (simp add: example_env_def foo_file_def two_file_diff_def first_file_diff_def)
  have l: "length [\<lparr>res_text = ''first review''\<rparr>, \<lparr>res_text = ''second review''\<rparr>] =
           length (chunks first_file_diff)"
    by (simp add: first_file_diff_def)
  have a: "\<forall>i<length (chunks first_file_diff).
           llm (example_env numbering_model)
             (submitted (chunk_requests ''Java'' (take i (chunks first_file_diff))) empty_world)
             (review_messages ''Java'' (Some (content (chunks first_file_diff ! i)))) =
           Inr ([\<lparr>res_text = ''first review''\<rparr>, \<lparr>res_text = ''second review''\<rparr>] ! i)"
    by (auto simp: first_file_diff_def example_env_def numbering_model_def submitted_def
          chunk_requests_def empty_world_def less_Suc_eq)
  from codeReviewForChunks_results_in_chunk_order [OF d p l a] show ?thesis .
qed

subsection \<open>C3: an empty or absent patch fails the chunked review\<close>

text \<open>
  Claim C3. The parser returns no entry for an absent or empty patch (this is the
  behaviour of the \<^verbatim>\<open>parse-diff\<close> package, taken as a hypothesis on the capability). Then
  \<open>codeReviewForChunks\<close> fails for a file whose patch is absent or empty: with the
  detection failure when no language is detected, otherwise with the defect raised by
  reading the chunks of the missing entry. It never returns an empty list of results, and
  it submits nothing to the model.
\<close>

theorem codeReviewForChunks_empty_patch_fails:
  assumes "patch file = None \<or> patch file = Some []"
    and "parseDiff env None = [] \<and> parseDiff env (Some []) = []"
  shows "codeReviewForChunks env file w =
           (Inl (case detectLanguage env (filename file) of
                   None \<Rightarrow> Fail NoSuchElementException
                 | Some lang \<Rightarrow> Die ''TypeError: Cannot read properties of undefined (reading chunks)''),
            w)"
proof -
  from assms have "parseDiff env (patch file) = []" by auto
  then show ?thesis
    by (simp add: codeReviewForChunks_def detectLanguage_effect_def Effect_flatMap_def
          Effect_all2_def Effect_succeed_def Effect_fail_def Effect_die_def split: option.splits)
qed

theorem codeReviewForChunks_empty_patch_fails_witness:
  "codeReviewForChunks (example_env numbering_model) empty_patch_file empty_world =
     (Inl (Die ''TypeError: Cannot read properties of undefined (reading chunks)''), empty_world) \<and>
   codeReviewForChunks (example_env numbering_model) logo_file empty_world =
     (Inl (Die ''TypeError: Cannot read properties of undefined (reading chunks)''), empty_world)"
proof -
  have e: "parseDiff (example_env numbering_model) None = [] \<and>
           parseDiff (example_env numbering_model) (Some []) = []"
    by (simp add: example_env_def)
  have p1: "patch empty_patch_file = None \<or> patch empty_patch_file = Some []"
    by (simp add: empty_patch_file_def)
  have p2: "patch logo_file = None \<or> patch logo_file = Some []"
    by (simp add: logo_file_def)
  from codeReviewForChunks_empty_patch_fails [OF p1 e, of empty_world]
       codeReviewForChunks_empty_patch_fails [OF p2 e, of empty_world]
  show ?thesis by (simp add: example_env_def)
qed

subsection \<open>C4: the first failing file fails the run and stops the loop\<close>

text \<open>
  Claim C4. In a \<^verbatim>\<open>pull_request\<close> run whose two clients have been constructed, let the
  files with a patch be
  \<open>reviewed @ failing # remaining\<close>, let the files of \<open>reviewed\<close> be reviewed and commented
  without failure, and let \<open>failing\<close> fail with the cause \<open>c\<close>, either in \<open>codeReviewFor\<close> or
  when its comment is posted, leaving the world \<open>w2\<close>. Then the run ends in \<open>w2\<close> with
  \<^verbatim>\<open>core.setFailed\<close> called on the stringified \<open>c\<close>: the failure is not swallowed, and no file
  of \<open>remaining\<close> is reviewed or commented, whatever \<open>remaining\<close> is.
\<close>

theorem run_fails_fast:
  assumes "eventName context = ''pull_request''"
    and "getFilesForReview env w (context_owner context) (context_repo context)
           (payload_number context) (excludeFilePatterns context) = Inr files"
    and "filter (\<lambda>file. patch file \<noteq> None) files = reviewed @ failing # remaining"
    and "Effect_forEach reviewed (review_and_comment env context)
           (listed (excludeFilePatterns context) w) = (Inr us, w1)"
    and "codeReviewFor env failing w1 = (Inl c, w2) \<or>
         (\<exists>res w'. codeReviewFor env failing w1 = (Inr res, w') \<and>
            createReviewComment env w' (comment_request context failing res) = Inl c \<and>
            w2 = commented (comment_request context failing res) w')"
    and "new_ChatOpenAI env (input_model_temperature context) (input_openai_api_key context)
           (input_model_name context) = None"
    and "getOctokit env (input_github_token context) = None"
  shows "run env context w = Inr (setFailed (cause_toString env c) w2)"
proof -
  from assms(5) have "review_and_comment env context failing w1 = (Inl c, w2)"
    by (auto simp: review_and_comment_unfold)
  then have "Effect_forEach (reviewed @ failing # remaining) (review_and_comment env context)
          (listed (excludeFilePatterns context) w) = (Inl c, w2)"
    by (rule Effect_forEach_stops [OF assms(4)])
  then have "Effect_forEach (filter (\<lambda>file. patch file \<noteq> None) files) (review_and_comment env context)
          (listed (excludeFilePatterns context) w) = (Inl c, w2)"
    by (simp only: assms(3))
  then show ?thesis
    by (simp add: run_constructed [OF assms(6) assms(7)] run_listed_files [OF assms(1) assms(2)])
qed

theorem run_fails_fast_witness:
  "run (example_env answers_once_model) pr_context empty_world =
     Inr (setFailed (show_cause (Fail (UnknownException ''503 Service Unavailable'')))
       (submitted (replicate 3 (review_messages ''Java'' (patch bar_file)))
          (commented (comment_request pr_context foo_file \<lparr>res_text = ''first review''\<rparr>)
             (submitted [review_messages ''Java'' (patch foo_file)]
                (listed (excludeFilePatterns pr_context) empty_world)))))"
proof -
  let ?env = "example_env answers_once_model"
  let ?w0 = "listed (excludeFilePatterns pr_context) empty_world"
  let ?w1 = "commented (comment_request pr_context foo_file \<lparr>res_text = ''first review''\<rparr>)
               (submitted [review_messages ''Java'' (patch foo_file)] ?w0)"
  have ev: "eventName pr_context = ''pull_request''"
    by (simp add: pr_context_def)
  have cm: "new_ChatOpenAI ?env (input_model_temperature pr_context)
             (input_openai_api_key pr_context) (input_model_name pr_context) = None"
    by (simp add: example_env_def pr_context_def)
  have co: "getOctokit ?env (input_github_token pr_context) = None"
    by (simp add: example_env_def pr_context_def)
  have ls: "getFilesForReview ?env empty_world (context_owner pr_context) (context_repo pr_context)
           (payload_number pr_context) (excludeFilePatterns pr_context) =
           Inr [logo_file, foo_file, bar_file, baz_file]"
    by (simp add: example_env_def)
  have fl: "filter (\<lambda>file. patch file \<noteq> None) [logo_file, foo_file, bar_file, baz_file] =
            [foo_file] @ bar_file # [baz_file]"
    by (simp add: logo_file_def foo_file_def bar_file_def baz_file_def)
  have d: "\<And>file. detectLanguage ?env (filename file) = Some ''Java''"
    by (simp add: example_env_def)
  have "codeReviewFor ?env foo_file ?w0 =
          (Inr \<lparr>res_text = ''first review''\<rparr>, submitted [review_messages ''Java'' (patch foo_file)] ?w0)"
    by (rule codeReviewFor_first_attempt [OF d])
       (simp add: example_env_def answers_once_model_def listed_def empty_world_def)
  then have first: "Effect_forEach [foo_file] (review_and_comment ?env pr_context) ?w0 = (Inr [()], ?w1)"
    by (simp add: review_and_comment_unfold example_env_def)
  have "\<forall>i\<le>2. llm ?env (submitted (replicate i (review_messages ''Java'' (patch bar_file))) ?w1)
            (review_messages ''Java'' (patch bar_file)) = Inl ''503 Service Unavailable''"
    by (simp add: example_env_def answers_once_model_def submitted_def commented_def)
  then have "codeReviewFor ?env bar_file ?w1 =
          (Inl (Fail (UnknownException ''503 Service Unavailable'')),
           submitted (replicate 3 (review_messages ''Java'' (patch bar_file))) ?w1)"
    by (rule codeReviewFor_exhausted [OF d])
  then have second: "codeReviewFor ?env bar_file ?w1 =
          (Inl (Fail (UnknownException ''503 Service Unavailable'')),
           submitted (replicate 3 (review_messages ''Java'' (patch bar_file))) ?w1) \<or>
         (\<exists>res w'. codeReviewFor ?env bar_file ?w1 = (Inr res, w') \<and>
            createReviewComment ?env w' (comment_request pr_context bar_file res) =
              Inl (Fail (UnknownException ''503 Service Unavailable'')) \<and>
            submitted (replicate 3 (review_messages ''Java'' (patch bar_file))) ?w1 =
              commented (comment_request pr_context bar_file res) w')"
    by (rule disjI1)
  from run_fails_fast [OF ev ls fl first second cm co] show ?thesis
    by (simp add: example_env_def)
qed

subsection \<open>C5: an event other than pull_request short-circuits the run\<close>

text \<open>
  Claim C5. When the event is not \<^verbatim>\<open>pull_request\<close> and the two clients have been constructed
  (neither constructor throws on the inputs), the run lists no files, submits nothing to the
  model and posts no comment; it calls \<^verbatim>\<open>core.setFailed\<close> once, with a message that ends with
  the name of the event received.
\<close>

theorem run_other_event_short_circuits:
  assumes "eventName context \<noteq> ''pull_request''"
    and "new_ChatOpenAI env (input_model_temperature context) (input_openai_api_key context)
           (input_model_name context) = None"
    and "getOctokit env (input_github_token context) = None"
  shows "\<exists>w'. run env context w = Inr w' \<and>
           listing_requests w' = listing_requests w \<and>
           model_requests w' = model_requests w \<and>
           review_comments w' = review_comments w \<and>
           setFailed_messages w' =
             setFailed_messages w @
               [''This action only works on pull_request events. Got: '' @ eventName context]"
  using assms(1)
  by (simp add: run_constructed [OF assms(2) assms(3)] run_program_def runPromiseExit_def
        orElse_program_def setFailed_def)

theorem run_other_event_short_circuits_witness:
  "\<exists>w'. run (example_env numbering_model) push_context empty_world = Inr w' \<and>
     listing_requests w' = [] \<and> model_requests w' = [] \<and> review_comments w' = [] \<and>
     setFailed_messages w' = [''This action only works on pull_request events. Got: push'']"
proof -
  have e: "eventName push_context \<noteq> ''pull_request''"
    by (simp add: push_context_def)
  have c: "new_ChatOpenAI (example_env numbering_model) (input_model_temperature push_context)
             (input_openai_api_key push_context) (input_model_name push_context) = None"
    by (simp add: example_env_def push_context_def pr_context_def)
  have g: "getOctokit (example_env numbering_model) (input_github_token push_context) = None"
    by (simp add: example_env_def push_context_def pr_context_def)
  from run_other_event_short_circuits [OF e c g, of empty_world]
  show ?thesis
    by (simp add: empty_world_def push_context_def)
qed

subsection \<open>C6: a file without a patch is neither reviewed nor commented\<close>

text \<open>
  Claim C6. In a \<^verbatim>\<open>pull_request\<close> run whose two clients have been constructed and whose file
  listing returns \<open>files\<close>, every prompt submitted to the model renders the patch of a
  listed file that has a patch, and every review comment posted is on a listed file that
  has a patch. Moreover the run is the same, result and world, as if the listing had
  returned only the files with a patch: a file whose patch is absent never reaches
  \<open>codeReviewFor\<close> and gets no comment.
\<close>

theorem run_skips_files_without_patch:
  assumes "eventName context = ''pull_request''"
    and "getFilesForReview env w (context_owner context) (context_repo context)
           (payload_number context) (excludeFilePatterns context) = Inr files"
    and "new_ChatOpenAI env (input_model_temperature context) (input_openai_api_key context)
           (input_model_name context) = None"
    and "getOctokit env (input_github_token context) = None"
  shows "\<exists>w'. run env context w = Inr w' \<and>
           (\<exists>ms. model_requests w' = model_requests w @ ms \<and>
              (\<forall>m \<in> set ms. \<exists>f \<in> set files. \<exists>lang d.
                  patch f = Some d \<and> m = review_messages lang (Some d))) \<and>
           (\<exists>cs. review_comments w' = review_comments w @ cs \<and>
              (\<forall>c \<in> set cs. \<exists>f \<in> set files. \<exists>d. patch f = Some d \<and> path c = filename f)) \<and>
           run env context w =
             run (env\<lparr>getFilesForReview :=
                     (\<lambda>w' ow rp n patterns. Inr (filter (\<lambda>file. patch file \<noteq> None) files))\<rparr>)
               context w"
proof -
  let ?pats = "excludeFilePatterns context"
  let ?fs = "filter (\<lambda>file. patch file \<noteq> None) files"
  let ?w' = "snd (Effect_forEach ?fs (review_and_comment env context) (listed ?pats w))"
  let ?env' = "env\<lparr>getFilesForReview :=
                   (\<lambda>w' ow rp n patterns. Inr (filter (\<lambda>file. patch file \<noteq> None) files))\<rparr>"
  have "reviews_only env context ?fs (listed ?pats w) ?w'"
    by (rule Effect_forEach_reviews_only) simp
  then obtain ms cs where
    ms: "model_requests ?w' = model_requests w @ ms"
      "\<forall>m \<in> set ms. \<exists>f \<in> set ?fs. \<exists>lang d. patch f = Some d \<and> m = review_messages lang (Some d)"
    and cs: "review_comments ?w' = review_comments w @ cs"
      "\<forall>c \<in> set cs. \<exists>f \<in> set ?fs. \<exists>d. patch f = Some d \<and> path c = filename f"
    unfolding reviews_only_def listed_def by auto
  have run_world: "model_requests (run_program env context w) = model_requests ?w' \<and>
                   review_comments (run_program env context w) = review_comments ?w'"
    by (auto simp: run_listed_files [OF assms(1) assms(2)] setFailed_def split: prod.splits sum.splits)
  from ms(2) have "\<forall>m \<in> set ms. \<exists>f \<in> set files. \<exists>lang d. patch f = Some d \<and> m = review_messages lang (Some d)"
    by fastforce
  with ms(1) run_world
  have prompts: "\<exists>ms. model_requests (run_program env context w) = model_requests w @ ms \<and>
            (\<forall>m \<in> set ms. \<exists>f \<in> set files. \<exists>lang d.
                patch f = Some d \<and> m = review_messages lang (Some d))"
    by auto
  from cs(2) have "\<forall>c \<in> set cs. \<exists>f \<in> set files. \<exists>d. patch f = Some d \<and> path c = filename f"
    by fastforce
  with cs(1) run_world
  have comments: "\<exists>cs. review_comments (run_program env context w) = review_comments w @ cs \<and>
            (\<forall>c \<in> set cs. \<exists>f \<in> set files. \<exists>d. patch f = Some d \<and> path c = filename f)"
    by auto
  have "getFilesForReview ?env' w (context_owner context) (context_repo context)
           (payload_number context) (excludeFilePatterns context) = Inr ?fs"
    by simp
  from run_listed_files [OF assms(1) this] run_listed_files [OF assms(1) assms(2)]
  have "run_program env context w = run_program ?env' context w"
    by (simp add: review_and_comment_getFilesForReview_update split: prod.splits sum.splits)
  moreover have "run ?env' context w = Inr (run_program ?env' context w)"
    using assms(3) assms(4) by (intro run_constructed) simp_all
  ultimately have same: "run env context w = run ?env' context w"
    by (simp add: run_constructed [OF assms(3) assms(4)])
  have "run env context w = Inr (run_program env context w)"
    by (rule run_constructed [OF assms(3) assms(4)])
  with prompts comments same show ?thesis
    by (intro exI [of _ "run_program env context w"]) blast
qed

theorem run_skips_files_without_patch_witness:
  "\<exists>w'. run (example_env numbering_model) pr_context empty_world = Inr w' \<and>
     (\<exists>ms. model_requests w' = model_requests empty_world @ ms \<and>
        (\<forall>m \<in> set ms. \<exists>f \<in> set [logo_file, foo_file, bar_file, baz_file]. \<exists>lang d.
            patch f = Some d \<and> m = review_messages lang (Some d))) \<and>
     (\<exists>cs. review_comments w' = review_comments empty_world @ cs \<and>
        (\<forall>c \<in> set cs. \<exists>f \<in> set [logo_file, foo_file, bar_file, baz_file]. \<exists>d.
            patch f = Some d \<and> path c = filename f)) \<and>
     run (example_env numbering_model) pr_context empty_world =
       run (example_env numbering_model\<lparr>getFilesForReview :=
              (\<lambda>w' ow rp n patterns.
                 Inr (filter (\<lambda>file. patch file \<noteq> None) [logo_file, foo_file, bar_file, baz_file]))\<rparr>)
         pr_context empty_world"
proof -
  have ev: "eventName pr_context = ''pull_request''"
    by (simp add: pr_context_def)
  have ls: "getFilesForReview (example_env numbering_model) empty_world (context_owner pr_context)
           (context_repo pr_context) (payload_number pr_context) (excludeFilePatterns pr_context) =
           Inr [logo_file, foo_file, bar_file, baz_file]"
    by (simp add: example_env_def)
  have cm: "new_ChatOpenAI (example_env numbering_model) (input_model_temperature pr_context)
             (input_openai_api_key pr_context) (input_model_name pr_context) = None"
    by (simp add: example_env_def pr_context_def)
  have co: "getOctokit (example_env numbering_model) (input_github_token pr_context) = None"
    by (simp add: example_env_def pr_context_def)
  from run_skips_files_without_patch [OF ev ls cm co] show ?thesis .
qed

subsection \<open>C7: the prompt of a chunk holds the header of the hunk, not its lines\<close>

text \<open>
  Claim C7. The templates have the two placeholders \<^verbatim>\<open>{lang}\<close> and \<^verbatim>\<open>{diff}\<close> and no other
  (\<open>parseFString_human_template\<close>, \<open>parseFString_system_template\<close>), and the prompt of a
  whole-file review ends with the patch of the file, verbatim, after the language label
  (\<open>codeReviewFor_prompts\<close>). For a chunk the prompt is rendered from \<open>content chunk\<close>, which
  is the header line of the hunk. On a patch of one hunk with three lines, whose chunk has
  the header in \<open>content\<close> and the lines in \<open>changes\<close>, \<open>codeReviewForChunks\<close> submits one
  prompt, ending with the header; the diff text of the hunk is not part of that prompt, nor
  is any of its three lines, while \<open>codeReviewFor\<close> on the same file submits a prompt that
  ends with the whole diff text of the hunk.
\<close>

theorem codeReviewForChunks_prompt_omits_hunk_lines:
  "codeReviewForChunks greeter_env greeter_file empty_world =
     (Inr [\<lparr>res_text = ''first review''\<rparr>],
      submitted [[SystemMessage system_template,
                  HumanMessage (human_prefix @ ''Java'' @ human_middle @ ''@@ -1,3 +1,3 @@'')]]
        empty_world) \<and>
   hunk_text greeter_chunk = greeter_patch \<and>
   \<not> sublist (hunk_text greeter_chunk)
       (human_prefix @ ''Java'' @ human_middle @ ''@@ -1,3 +1,3 @@'') \<and>
   \<not> sublist '' class Greeter {''
       (human_prefix @ ''Java'' @ human_middle @ ''@@ -1,3 +1,3 @@'') \<and>
   \<not> sublist ''-  void hi() { }''
       (human_prefix @ ''Java'' @ human_middle @ ''@@ -1,3 +1,3 @@'') \<and>
   \<not> sublist ''+  void hello() { }''
       (human_prefix @ ''Java'' @ human_middle @ ''@@ -1,3 +1,3 @@'') \<and>
   codeReviewFor greeter_env greeter_file empty_world =
     (Inr \<lparr>res_text = ''first review''\<rparr>,
      submitted [[SystemMessage system_template,
                  HumanMessage (human_prefix @ ''Java'' @ human_middle @ greeter_patch)]]
        empty_world) \<and>
   suffix (hunk_text greeter_chunk) (human_prefix @ ''Java'' @ human_middle @ greeter_patch)"
proof (intro conjI)
  have d: "detectLanguage greeter_env (filename greeter_file) = Some ''Java''"
    by (simp add: greeter_env_def example_env_def)
  have p: "parseDiff greeter_env (patch greeter_file) = \<lparr>chunks = [greeter_chunk]\<rparr> # []"
    by (simp add: greeter_env_def greeter_file_def)
  have m: "llm greeter_env empty_world (review_messages ''Java'' (Some d')) =
             Inr \<lparr>res_text = ''first review''\<rparr>" for d'
    by (simp add: greeter_env_def example_env_def numbering_model_def empty_world_def)
  have "length [\<lparr>res_text = ''first review''\<rparr>] = length (chunks \<lparr>chunks = [greeter_chunk]\<rparr>)"
    by simp
  moreover have "\<forall>i<length (chunks \<lparr>chunks = [greeter_chunk]\<rparr>).
      llm greeter_env
        (submitted (chunk_requests ''Java'' (take i (chunks \<lparr>chunks = [greeter_chunk]\<rparr>))) empty_world)
        (review_messages ''Java'' (Some (content (chunks \<lparr>chunks = [greeter_chunk]\<rparr> ! i)))) =
      Inr ([\<lparr>res_text = ''first review''\<rparr>] ! i)"
    by (simp add: m chunk_requests_def submitted_Nil)
  ultimately have "Effect_all (map (\<lambda>chunk. Effect_tryPromise
        (chain_call greeter_env (call_values ''Java'' (Some (content chunk)))))
        (chunks \<lparr>chunks = [greeter_chunk]\<rparr>)) empty_world =
     (Inr [\<lparr>res_text = ''first review''\<rparr>],
      submitted (chunk_requests ''Java'' (chunks \<lparr>chunks = [greeter_chunk]\<rparr>)) empty_world)"
    by (rule Effect_all_chunks_succeed)
  then show "codeReviewForChunks greeter_env greeter_file empty_world =
     (Inr [\<lparr>res_text = ''first review''\<rparr>],
      submitted [[SystemMessage system_template,
                  HumanMessage (human_prefix @ ''Java'' @ human_middle @ ''@@ -1,3 +1,3 @@'')]]
        empty_world)"
    by (simp add: codeReviewForChunks_unfold [OF d p] chunk_requests_def review_messages_def
          greeter_chunk_def js_to_string_def)
  show hunk: "hunk_text greeter_chunk = greeter_patch"
    by (simp add: hunk_text_def greeter_chunk_def greeter_patch_def change_content_def)
  show "\<not> sublist (hunk_text greeter_chunk)
       (human_prefix @ ''Java'' @ human_middle @ ''@@ -1,3 +1,3 @@'')"
    by (rule no_bracket_not_sublist [OF greeter_prompt_no_bracket])
       (simp add: hunk_text_def greeter_chunk_def join_lines_def change_content_def)
  show "\<not> sublist '' class Greeter {''
       (human_prefix @ ''Java'' @ human_middle @ ''@@ -1,3 +1,3 @@'')"
    by (rule no_bracket_not_sublist [OF greeter_prompt_no_bracket]) simp
  show "\<not> sublist ''-  void hi() { }''
       (human_prefix @ ''Java'' @ human_middle @ ''@@ -1,3 +1,3 @@'')"
    by (rule no_bracket_not_sublist [OF greeter_prompt_no_bracket]) simp
  show "\<not> sublist ''+  void hello() { }''
       (human_prefix @ ''Java'' @ human_middle @ ''@@ -1,3 +1,3 @@'')"
    by (rule no_bracket_not_sublist [OF greeter_prompt_no_bracket]) simp
  have "codeReviewFor greeter_env greeter_file empty_world =
     (Inr \<lparr>res_text = ''first review''\<rparr>,
      submitted [review_messages ''Java'' (patch greeter_file)] empty_world)"
    by (rule codeReviewFor_first_attempt [OF d]) (simp add: m greeter_file_def)
  then show "codeReviewFor greeter_env greeter_file empty_world =
     (Inr \<lparr>res_text = ''first review''\<rparr>,
      submitted [[SystemMessage system_template,
                  HumanMessage (human_prefix @ ''Java'' @ human_middle @ greeter_patch)]]
        empty_world)"
    by (simp add: review_messages_def greeter_file_def js_to_string_def)
  show "suffix (hunk_text greeter_chunk) (human_prefix @ ''Java'' @ human_middle @ greeter_patch)"
    unfolding hunk by (simp add: suffix_def)
qed

subsection \<open>C8: only the first entry of the parsed diff is reviewed\<close>

text \<open>
  Claim C8. When the patch parses into the entries \<open>fd # rest\<close>, \<open>codeReviewForChunks\<close>
  behaves exactly as if the parser had returned \<open>fd\<close> alone: the entries in \<open>rest\<close> change
  neither the result nor the world. Every prompt it submits is the prompt of a chunk of
  \<open>fd\<close>.
\<close>

theorem codeReviewForChunks_first_file_only:
  assumes "parseDiff env (patch file) = fd # rest"
  shows "codeReviewForChunks env file w =
           codeReviewForChunks (env\<lparr>parseDiff := (\<lambda>p. [fd])\<rparr>) file w \<and>
         (\<forall>lang. detectLanguage env (filename file) = Some lang \<longrightarrow>
            (\<exists>k\<le>length (chunks fd).
               snd (codeReviewForChunks env file w) =
                 submitted (chunk_requests lang (take k (chunks fd))) w))"
proof (intro conjI allI impI)
  show "codeReviewForChunks env file w =
           codeReviewForChunks (env\<lparr>parseDiff := (\<lambda>p. [fd])\<rparr>) file w"
    using assms
    by (simp add: codeReviewForChunks_def detectLanguage_effect_def chain_call_parseDiff_update)
next
  fix lang assume "detectLanguage env (filename file) = Some lang"
  from codeReviewForChunks_unfold [OF this assms] Effect_all_chunks_world [of "chunks fd" env lang w]
  show "\<exists>k\<le>length (chunks fd).
               snd (codeReviewForChunks env file w) =
                 submitted (chunk_requests lang (take k (chunks fd))) w"
    by simp
qed

theorem codeReviewForChunks_first_file_only_witness:
  "codeReviewForChunks (example_env numbering_model) foo_file empty_world =
     codeReviewForChunks (example_env numbering_model\<lparr>parseDiff := (\<lambda>p. [first_file_diff])\<rparr>)
       foo_file empty_world \<and>
   (\<exists>k\<le>length (chunks first_file_diff).
      snd (codeReviewForChunks (example_env numbering_model) foo_file empty_world) =
        submitted (chunk_requests ''Java'' (take k (chunks first_file_diff))) empty_world)"
proof -
  have p: "parseDiff (example_env numbering_model) (patch foo_file) = first_file_diff # tl two_file_diff"
    by (simp add: example_env_def foo_file_def two_file_diff_def first_file_diff_def)
  have d: "detectLanguage (example_env numbering_model) (filename foo_file) = Some ''Java''"
    by (simp add: example_env_def)
  from codeReviewForChunks_first_file_only [OF p, of empty_world] d show ?thesis
    by blast
qed

subsection \<open>C9: a failing chunk call is not retried and fails the whole chunked review\<close>

text \<open>
  Claim C9. If the model call of chunk \<open>j\<close> fails with \<open>e\<close> after the calls of the chunks
  before it have succeeded, \<open>codeReviewForChunks\<close> fails with that error wrapped in
  \<^verbatim>\<open>UnknownException\<close>: no list of results is returned, not even of the chunks that
  succeeded. The prompts submitted are those of the chunks up to \<open>j\<close>, each exactly once: the
  failing call is not repeated.
\<close>

theorem codeReviewForChunks_fails_without_retry:
  assumes "detectLanguage env (filename file) = Some lang"
    and "parseDiff env (patch file) = fd # rest"
    and "j < length (chunks fd)"
    and "\<forall>i<j. \<exists>v. llm env (submitted (chunk_requests lang (take i (chunks fd))) w)
                      (review_messages lang (Some (content (chunks fd ! i)))) = Inr v"
    and "llm env (submitted (chunk_requests lang (take j (chunks fd))) w)
           (review_messages lang (Some (content (chunks fd ! j)))) = Inl e"
  shows "codeReviewForChunks env file w =
           (Inl (Fail (UnknownException e)),
            submitted (chunk_requests lang (take (Suc j) (chunks fd))) w)"
  using Effect_all_chunks_fail [OF assms(3) assms(4) assms(5)]
  by (simp add: codeReviewForChunks_unfold [OF assms(1) assms(2)])

theorem codeReviewForChunks_fails_without_retry_witness:
  "codeReviewForChunks (example_env second_fails_model) foo_file empty_world =
     (Inl (Fail (UnknownException ''500 Internal Server Error'')),
      submitted (chunk_requests ''Java'' (take (Suc 1) (chunks first_file_diff))) empty_world)"
proof -
  have d: "detectLanguage (example_env second_fails_model) (filename foo_file) = Some ''Java''"
    by (simp add: example_env_def)
  have p: "parseDiff (example_env second_fails_model) (patch foo_file) = first_file_diff # tl two_file_diff"
    by (simp add: example_env_def foo_file_def two_file_diff_def first_file_diff_def)
  have j: "1 < length (chunks first_file_diff)"
    by (simp add: first_file_diff_def)
  have a: "\<forall>i<1. \<exists>v. llm (example_env second_fails_model)
             (submitted (chunk_requests ''Java'' (take i (chunks first_file_diff))) empty_world)
             (review_messages ''Java'' (Some (content (chunks first_file_diff ! i)))) = Inr v"
    by (simp add: example_env_def second_fails_model_def submitted_def chunk_requests_def empty_world_def)
  have f: "llm (example_env second_fails_model)
             (submitted (chunk_requests ''Java'' (take 1 (chunks first_file_diff))) empty_world)
             (review_messages ''Java'' (Some (content (chunks first_file_diff ! 1)))) =
           Inl ''500 Internal Server Error''"
    by (simp add: example_env_def second_fails_model_def submitted_def chunk_requests_def
          empty_world_def first_file_diff_def)
  from codeReviewForChunks_fails_without_retry [OF d p j a f] show ?thesis .
qed

subsection \<open>C10: the exclude patterns are the trimmed comma-separated pieces of the input\<close>

text \<open>
  Claim C10. In a \<^verbatim>\<open>pull_request\<close> run whose two clients have been constructed, the file
  listing is asked once, with the list obtained by splitting the input \<^verbatim>\<open>exclude_files\<close> at
  every comma and trimming each piece. The pieces hold no comma and joined by commas they
  give the input back; trimming a piece removes white space from its two ends, and only
  that, until neither end is white space. For the empty input the list is the one-element
  list holding the empty string, not the empty list.
\<close>

theorem run_exclude_patterns:
  assumes "eventName context = ''pull_request''"
    and "new_ChatOpenAI env (input_model_temperature context) (input_openai_api_key context)
           (input_model_name context) = None"
    and "getOctokit env (input_github_token context) = None"
  shows "(\<exists>w'. run env context w = Inr w' \<and>
            listing_requests w' =
              listing_requests w @ [map trim (js_split 0x2C (input_exclude_files context))] \<and>
            (input_exclude_files context = [] \<longrightarrow>
               listing_requests w' = listing_requests w @ [[[]]])) \<and>
         js_join 0x2C (js_split 0x2C (input_exclude_files context)) = input_exclude_files context \<and>
         (\<forall>piece \<in> set (js_split 0x2C (input_exclude_files context)). 0x2C \<notin> set piece) \<and>
         (\<forall>piece. \<exists>l r. piece = l @ trim piece @ r \<and>
            list_all is_whitespace l \<and> list_all is_whitespace r \<and>
            (trim piece = [] \<or>
             \<not> is_whitespace (hd (trim piece)) \<and> \<not> is_whitespace (last (trim piece))))"
proof (intro conjI allI)
  let ?pats = "excludeFilePatterns context"
  have "listing_requests (run_program env context w) = listing_requests w @ [?pats]"
  proof (cases "getFilesForReview env w (context_owner context) (context_repo context)
           (payload_number context) ?pats")
    case (Inl c)
    then show ?thesis
      by (simp add: run_pull_request [OF assms(1)] pull_request_program_unfold setFailed_def listed_def)
  next
    case (Inr files)
    let ?fs = "filter (\<lambda>file. patch file \<noteq> None) files"
    have "reviews_only env context ?fs (listed ?pats w)
            (snd (Effect_forEach ?fs (review_and_comment env context) (listed ?pats w)))"
      by (rule Effect_forEach_reviews_only) simp
    then have "listing_requests (snd (Effect_forEach ?fs (review_and_comment env context) (listed ?pats w))) =
               listing_requests w @ [?pats]"
      by (simp add: reviews_only_def listed_def)
    then show ?thesis
      by (auto simp: run_listed_files [OF assms(1) Inr] setFailed_def split: prod.splits sum.splits)
  qed
  then show "\<exists>w'. run env context w = Inr w' \<and>
            listing_requests w' =
              listing_requests w @ [map trim (js_split 0x2C (input_exclude_files context))] \<and>
            (input_exclude_files context = [] \<longrightarrow>
               listing_requests w' = listing_requests w @ [[[]]])"
    by (auto simp: run_constructed [OF assms(2) assms(3)] excludeFilePatterns_def trim_def)
  show "js_join 0x2C (js_split 0x2C (input_exclude_files context)) = input_exclude_files context"
    by (rule js_join_js_split)
  show "\<forall>piece \<in> set (js_split 0x2C (input_exclude_files context)). 0x2C \<notin> set piece"
    by (rule js_split_pieces)
next
  fix piece :: js_string
  from trim_decomposition [of piece] trim_ends [of piece]
  show "\<exists>l r. piece = l @ trim piece @ r \<and>
            list_all is_whitespace l \<and> list_all is_whitespace r \<and>
            (trim piece = [] \<or>
             \<not> is_whitespace (hd (trim piece)) \<and> \<not> is_whitespace (last (trim piece)))"
    by blast
qed

theorem run_exclude_patterns_witness:
  "(\<exists>w'. run (example_env numbering_model) pr_context empty_world = Inr w' \<and>
      listing_requests w' = [[md_pattern, docs_pattern]]) \<and>
   (\<exists>w'. run (example_env numbering_model) (pr_context\<lparr>input_exclude_files := nbsp_input\<rparr>)
            empty_world = Inr w' \<and>
      listing_requests w' = [[[0x78], [0x61]]]) \<and>
   (\<exists>w'. run (example_env numbering_model) (pr_context\<lparr>input_exclude_files := []\<rparr>)
            empty_world = Inr w' \<and>
      listing_requests w' = [[[]]])"
proof -
  have ev: "eventName (pr_context\<lparr>input_exclude_files := x\<rparr>) = ''pull_request''" for x
    by (simp add: pr_context_def)
  have cm: "new_ChatOpenAI (example_env numbering_model)
              (input_model_temperature (pr_context\<lparr>input_exclude_files := x\<rparr>))
              (input_openai_api_key (pr_context\<lparr>input_exclude_files := x\<rparr>))
              (input_model_name (pr_context\<lparr>input_exclude_files := x\<rparr>)) = None" for x
    by (simp add: example_env_def pr_context_def)
  have co: "getOctokit (example_env numbering_model)
              (input_github_token (pr_context\<lparr>input_exclude_files := x\<rparr>)) = None" for x
    by (simp add: example_env_def pr_context_def)
  have same: "pr_context\<lparr>input_exclude_files := md_docs_input\<rparr> = pr_context"
    "input_exclude_files pr_context = md_docs_input"
    by (simp_all add: pr_context_def)
  have a: "map trim (js_split 0x2C md_docs_input) = [md_pattern, docs_pattern]"
    by (simp add: md_docs_input_def md_pattern_def docs_pattern_def trim_def is_whitespace_def)
  have b: "map trim (js_split 0x2C nbsp_input) = [[0x78], [0x61]]"
    by (simp add: nbsp_input_def trim_def is_whitespace_def)
  from run_exclude_patterns [OF ev [of md_docs_input] cm [of md_docs_input] co [of md_docs_input],
         of empty_world]
       run_exclude_patterns [OF ev [of nbsp_input] cm [of nbsp_input] co [of nbsp_input],
         of empty_world]
       run_exclude_patterns [OF ev [of "[]"] cm [of "[]"] co [of "[]"], of empty_world]
  show ?thesis
    by (simp add: same a b empty_world_def) blast
qed

end
